theory Spec2Isabelle
  imports Complex_Main
begin

section \<open>Data model\<close>

text \<open>
  The programs of py_depthsampling work on numpy arrays of floating point numbers.
  An array is modelled by the nested list of its entries (a one-dimensional array is a
  list, a two-dimensional array is the list of its rows, and so on), and a floating
  point number by a real number: sums, products and order are those of the reals, and
  there is no rounding.  The entries of the arrays given to the programs are numbers;
  where numpy computes a \<open>nan\<close> from them (the mean or the median of no entries), the
  result is an \<open>option\<close>, with \<open>None\<close> for \<open>nan\<close>.  numpy arrays are rectangular; the
  shape of an array is read off the lists, where it is not given with them.

  An exception raised by Python or by numpy ends the computation; it is the left
  summand of the result type.
\<close>

datatype error = IndexError | ValueError | NameError

type_synonym ary1 = "real list"
type_synonym ary2 = "real list list"
type_synonym ary3 = "real list list list"
type_synonym ary4 = "real list list list list"

text \<open>\<open>a.shape[1]\<close> of a two-dimensional array; an array without rows is taken to have
  no columns.\<close>

definition num_dpth :: "ary2 \<Rightarrow> nat" where
  "num_dpth a = (case a of [] \<Rightarrow> 0 | p # _ \<Rightarrow> length p)"

text \<open>\<open>shape2 i c a\<close>: the two leading dimensions of \<open>a\<close> are \<open>i\<close> and \<open>c\<close>.\<close>

definition shape2 :: "nat \<Rightarrow> nat \<Rightarrow> 'a list list \<Rightarrow> bool" where
  "shape2 i c a = (length a = i \<and> list_all (\<lambda>r. length r = c) a)"

section \<open>Deconvolution, model 4 (\<open>drain_model_decon_04.py\<close>)\<close>

text \<open>\<open>np.zeros((i, c, d))\<close>.\<close>

definition zeros3 :: "nat \<Rightarrow> nat \<Rightarrow> nat \<Rightarrow> ary3" where
  "zeros3 i c d = replicate i (replicate c (replicate d 0))"

text \<open>The slice \<open>a[:, :, k]\<close> of a three-dimensional array, and the assignment
  \<open>a[:, :, k] = v\<close> of a two-dimensional array to it.\<close>

definition get_dpth :: "ary3 \<Rightarrow> nat \<Rightarrow> ary2" where
  "get_dpth a k = map (map (\<lambda>p. p ! k)) a"

definition set_dpth :: "ary3 \<Rightarrow> nat \<Rightarrow> ary2 \<Rightarrow> ary3" where
  "set_dpth a k v = map2 (map2 (\<lambda>p x. p[k := x])) a v"

text \<open>
  \<open>aryEmp5[None, :, k]\<close> has the shape \<open>(1, c)\<close> and \<open>aryEmp5[:, k]\<close> the shape
  \<open>(c)\<close>; in an operation with an array of the shape \<open>(varNumIt, c)\<close> numpy
  broadcasts either one along the iterations.
\<close>

definition emp_dpth :: "nat \<Rightarrow> ary2 \<Rightarrow> nat \<Rightarrow> ary2" where
  "emp_dpth varNumIt aryEmp5 k = replicate varNumIt (map (\<lambda>p. p ! k) aryEmp5)"

text \<open>
  \<open>aryNseRnd[:, :, k]\<close> in an operation with an array of \<open>c\<close> conditions: a noise
  array with a single condition is broadcast along the conditions.
\<close>

definition bc_con :: "nat \<Rightarrow> ary1 \<Rightarrow> ary1" where
  "bc_con c r = (if length r = 1 then replicate c (hd r) else r)"

definition nse_dpth :: "nat \<Rightarrow> ary3 \<Rightarrow> nat \<Rightarrow> ary2" where
  "nse_dpth c aryNseRnd k = map (bc_con c) (get_dpth aryNseRnd k)"

text \<open>The product of a scalar with an array, and the product and the difference of two
  arrays of one shape, entry by entry.\<close>

definition smul :: "real \<Rightarrow> ary2 \<Rightarrow> ary2" where
  "smul s a = map (map (\<lambda>x. s * x)) a"

definition mul2 :: "ary2 \<Rightarrow> ary2 \<Rightarrow> ary2" where
  "mul2 a b = map2 (map2 (\<lambda>x y. x * y)) a b"

definition sub2 :: "ary2 \<Rightarrow> ary2 \<Rightarrow> ary2" where
  "sub2 a b = map2 (map2 (\<lambda>x y. x - y)) a b"

text \<open>
  The checks numpy makes while \<open>deconv_04\<close> runs: every profile and every noise vector
  has the depth levels that are read (an IndexError otherwise), and the noise array has
  as many conditions as the profiles, or one (a ValueError otherwise).
\<close>

definition emp_dpths :: "ary2 \<Rightarrow> nat \<Rightarrow> bool" where
  "emp_dpths aryEmp5 n = list_all (\<lambda>p. n \<le> length p) aryEmp5"

definition nse_dpths :: "ary3 \<Rightarrow> nat \<Rightarrow> bool" where
  "nse_dpths aryNseRnd n = list_all (list_all (\<lambda>p. n \<le> length p)) aryNseRnd"

definition nse_cons :: "ary3 \<Rightarrow> nat \<Rightarrow> bool" where
  "nse_cons aryNseRnd c = list_all (\<lambda>m. length m = c \<or> length m = 1) aryNseRnd"

text \<open>The body of \<open>deconv_04\<close>, one assignment of the source per line of the \<open>let\<close>.\<close>

definition deconv_04_layers :: "ary2 \<Rightarrow> ary3 \<Rightarrow> ary3" where
  "deconv_04_layers aryEmp5 aryNseRnd =
    (let varNumIt = length aryNseRnd;
         c = length aryEmp5;
         emp = emp_dpth varNumIt aryEmp5;
         nse = nse_dpth c aryNseRnd;
         a = zeros3 varNumIt c (num_dpth aryEmp5);
         a = set_dpth a 0 (emp 0);
         a = set_dpth a 1
               (sub2 (emp 1)
                     (mul2 (smul (0.6 / 1.9) (get_dpth a 0)) (nse 1)));
         a = set_dpth a 2
               (sub2 (sub2 (emp 2)
                           (mul2 (smul (0.3 / 1.5) (get_dpth a 1)) (nse 2)))
                     (mul2 (smul (0.6 / 1.9) (get_dpth a 0)) (nse 2)));
         a = set_dpth a 3
               (sub2 (sub2 (sub2 (emp 3)
                                 (mul2 (smul (1.3 / 2.2) (get_dpth a 2)) (nse 3)))
                           (mul2 (smul (0.3 / 1.5) (get_dpth a 1)) (nse 3)))
                     (mul2 (smul (0.5 / 1.9) (get_dpth a 0)) (nse 3)));
         a = set_dpth a 4
               (sub2 (sub2 (sub2 (sub2 (emp 4)
                                       (mul2 (smul (0.7 / 1.7) (get_dpth a 3)) (nse 4)))
                                 (mul2 (smul (1.3 / 2.2) (get_dpth a 2)) (nse 4)))
                           (mul2 (smul (0.3 / 1.5) (get_dpth a 1)) (nse 4)))
                     (mul2 (smul (0.5 / 1.9) (get_dpth a 0)) (nse 4)))
     in a)"

text \<open>
  \<open>deconv_04(varNumCon, aryEmp5, aryNseRnd)\<close>.  The source does not use \<open>varNumCon\<close>.
  The first failure of the source is the one returned: layer V reads depth level 1 of
  the profiles and of the noise and multiplies arrays over the conditions, the later
  layers read the depth levels up to 4.  The depth levels are checked on the rows that
  the lists hold: a list without rows stands for an array whose rows would have the
  depth levels read.
\<close>

definition deconv_04 :: "int \<Rightarrow> ary2 \<Rightarrow> ary3 \<Rightarrow> error + ary3" where
  "deconv_04 varNumCon aryEmp5 aryNseRnd =
    (if \<not> emp_dpths aryEmp5 2 \<or> \<not> nse_dpths aryNseRnd 2 then Inl IndexError
     else if \<not> nse_cons aryNseRnd (length aryEmp5) then Inl ValueError
     else if \<not> emp_dpths aryEmp5 5 \<or> \<not> nse_dpths aryNseRnd 5 then Inl IndexError
     else Inr (deconv_04_layers aryEmp5 aryNseRnd))"

text \<open>The noise factor that the entry \<open>[it, con]\<close> of the slice
  \<open>aryNseRnd[:, :, k]\<close> contributes to the operations of \<open>deconv_04\<close>.\<close>

definition nse_at :: "ary2 \<Rightarrow> ary3 \<Rightarrow> nat \<Rightarrow> nat \<Rightarrow> nat \<Rightarrow> real" where
  "nse_at aryEmp5 aryNseRnd it con k = nse_dpth (length aryEmp5) aryNseRnd k ! it ! con"

text \<open>
  The noise array of models 4 and 5 (\<open>drain_model_Huber2017.py\<close>):
  \<open>np.random.randn(varNumIt, varNumCon, varNumDpth)\<close>, multiplied by \<open>varNseRndSd\<close>,
  plus one.  The draws of the standard normal distribution are the argument
  \<open>aryRandn\<close>.
\<close>

definition aryNseRnd_of :: "ary3 \<Rightarrow> real \<Rightarrow> ary3" where
  "aryNseRnd_of aryRandn varNseRndSd =
     map (map (map (\<lambda>x. x + 1.0))) (map (map (map (\<lambda>x. x * varNseRndSd))) aryRandn)"

text \<open>
  The deconvolution of model 4 in the words of the specification, for one profile: every
  subtraction term has a random factor of its own.  \<open>g k j\<close> is the factor of the term
  that layer \<open>k\<close> subtracts for the deeper layer \<open>j\<close>.  It is compared with
  \<open>deconv_04\<close> below.
\<close>

definition deconv_04_spec :: "ary1 \<Rightarrow> (nat \<Rightarrow> nat \<Rightarrow> real) \<Rightarrow> ary1" where
  "deconv_04_spec e g =
    (let n0 = e ! 0;
         n1 = e ! 1 - 0.6 / 1.9 * n0 * g 1 0;
         n2 = e ! 2 - 0.3 / 1.5 * n1 * g 2 1 - 0.6 / 1.9 * n0 * g 2 0;
         n3 = e ! 3 - 1.3 / 2.2 * n2 * g 3 2 - 0.3 / 1.5 * n1 * g 3 1 - 0.5 / 1.9 * n0 * g 3 0;
         n4 = e ! 4 - 0.7 / 1.7 * n3 * g 4 3 - 1.3 / 2.2 * n2 * g 4 2 - 0.3 / 1.5 * n1 * g 4 1
                - 0.5 / 1.9 * n0 * g 4 0
     in [n0, n1, n2, n3, n4])"

section \<open>Resampling between the depth grids (\<open>drain_model_Huber2017.py\<close>)\<close>

text \<open>A loop over a list that stops at the first exception.\<close>

fun map_err :: "('a \<Rightarrow> error + 'b) \<Rightarrow> 'a list \<Rightarrow> error + 'b list" where
  "map_err f [] = Inr []"
| "map_err f (x # xs) =
     (case f x of Inl e \<Rightarrow> Inl e
      | Inr y \<Rightarrow> (case map_err f xs of Inl e \<Rightarrow> Inl e | Inr ys \<Rightarrow> Inr (y # ys)))"

text \<open>
  The relative positions of the five layers of the model, by region.  For a region
  other than \<open>v1\<close> and \<open>v2\<close> the script assigns nothing to \<open>vecPosMdl\<close>, and the first
  use of the name raises a NameError.
\<close>

definition vecPosMdl :: "string \<Rightarrow> error + ary1" where
  "vecPosMdl strRoi =
    (if strRoi = ''v1'' then Inr [0.1, 0.25, 0.5, 0.8, 0.95]
     else if strRoi = ''v2''
       then Inr (map (\<lambda>x. x / 1700.0) [160.0, 590.0, 1110.0, 1400.0, 1620.0])
     else Inl NameError)"

text \<open>\<open>np.min\<close> and \<open>np.max\<close> of a one-dimensional array; numpy raises a ValueError
  for an array without entries.\<close>

definition np_min :: "ary1 \<Rightarrow> error + real" where
  "np_min a = (case a of [] \<Rightarrow> Inl ValueError | x # xs \<Rightarrow> Inr (fold min xs x))"

definition np_max :: "ary1 \<Rightarrow> error + real" where
  "np_max a = (case a of [] \<Rightarrow> Inl ValueError | x # xs \<Rightarrow> Inr (fold max xs x))"

text \<open>
  \<open>np.linspace(start, stop, num=num, endpoint=True)\<close> for a number \<open>num\<close> of samples
  that is the dimension of an array: the samples \<open>i * step + start\<close> with the step
  \<open>(stop - start) / (num - 1)\<close>, the last of them set to \<open>stop\<close>.
\<close>

definition linspace :: "real \<Rightarrow> real \<Rightarrow> nat \<Rightarrow> ary1" where
  "linspace start stop num =
    (if num = 0 then []
     else if num = 1 then [start]
     else map (\<lambda>i. real i * ((stop - start) / real (num - 1)) + start) [0..<num - 1]
          @ [stop])"

text \<open>The positions of the empirical data points (line 300 of the script), and the
  sampling points of the equi-volume space (line 371).\<close>

definition vecPosEmp :: "string \<Rightarrow> nat \<Rightarrow> error + ary1" where
  "vecPosEmp strRoi varNumDpth =
    (case vecPosMdl strRoi of Inl e \<Rightarrow> Inl e
     | Inr m \<Rightarrow>
       (case np_min m of Inl e \<Rightarrow> Inl e
        | Inr lo \<Rightarrow>
          (case np_max m of Inl e \<Rightarrow> Inl e
           | Inr hi \<Rightarrow> Inr (linspace lo hi varNumDpth))))"

definition vecIntpEqui :: "string \<Rightarrow> nat \<Rightarrow> error + ary1" where
  "vecIntpEqui strRoi varNumDpth =
    (case vecPosMdl strRoi of Inl e \<Rightarrow> Inl e
     | Inr m \<Rightarrow>
       (case np_min m of Inl e \<Rightarrow> Inl e
        | Inr lo \<Rightarrow>
          (case np_max m of Inl e \<Rightarrow> Inl e
           | Inr hi \<Rightarrow> Inr (linspace lo hi varNumDpth))))"

text \<open>
  \<open>scipy.interpolate.griddata(points, values, xi, method=...)\<close> is a function of a
  library; it is an argument of the model.  It returns one value for every position of
  \<open>xi\<close>, so that the assignment of its result to a row of the array of results fits.

  \<open>intp_down\<close> is the loop over the conditions that downsamples the profiles of one
  subject to the five layers (lines 305 to 314), \<open>intp_up\<close> the loop that brings the
  corrected profiles of one subject back to the equi-volume grid (lines 376 to 387; for
  the models 4, 5 and 6 the script makes the same call for every iteration or factor).
\<close>

type_synonym griddata = "ary1 \<Rightarrow> ary1 \<Rightarrow> ary1 \<Rightarrow> string \<Rightarrow> error + ary1"

definition intp_down :: "griddata \<Rightarrow> string \<Rightarrow> nat \<Rightarrow> ary2 \<Rightarrow> error + ary2" where
  "intp_down griddata strRoi varNumDpth aryEmpSub =
    (case vecPosMdl strRoi of Inl e \<Rightarrow> Inl e
     | Inr m \<Rightarrow>
       (case vecPosEmp strRoi varNumDpth of Inl e \<Rightarrow> Inl e
        | Inr p \<Rightarrow> map_err (\<lambda>prf. griddata p prf m ''cubic'') aryEmpSub))"

definition intp_up :: "griddata \<Rightarrow> string \<Rightarrow> nat \<Rightarrow> ary2 \<Rightarrow> error + ary2" where
  "intp_up griddata strRoi varNumDpth aryDecon5Sub =
    (case vecPosMdl strRoi of Inl e \<Rightarrow> Inl e
     | Inr m \<Rightarrow>
       (case vecIntpEqui strRoi varNumDpth of Inl e \<Rightarrow> Inl e
        | Inr q \<Rightarrow> map_err (\<lambda>prf. griddata m prf q ''cubic'') aryDecon5Sub))"

section \<open>Permutation test of the peak positions\<close>

text \<open>
  Modelled from the spec: the function \<open>peak_diff\<close> of
  \<open>py_depthsampling/permutation/peak_pos_perm_diff.py\<close>, which \<open>permutation_peak.py\<close>
  calls, is not among the source files.  The two-sided p-value is one plus the number of
  permutation statistics whose absolute value is at least the absolute value of the
  empirical statistic, divided by one plus the number of permutations.
\<close>

definition p_value :: "real \<Rightarrow> ary1 \<Rightarrow> real" where
  "p_value varEmpDiff vecPermDiff =
     (1 + real (length (filter (\<lambda>d. \<bar>varEmpDiff\<bar> \<le> \<bar>d\<bar>) vecPermDiff)))
       / (1 + real (length vecPermDiff))"

section \<open>Selection of vertices (\<open>ds_slctVrtcs.py\<close>)\<close>

text \<open>\<open>astype(np.int64)\<close> of a floating point number within the range of the 64 bit
  integers: the fraction is cut off, towards zero.\<close>

definition astype_int64 :: "real \<Rightarrow> int" where
  "astype_int64 x = (if 0 \<le> x then \<lfloor>x\<rfloor> else \<lceil>x\<rceil>)"

text \<open>An index into an array of \<open>n\<close> entries: a negative index counts from the end, an
  index out of the range raises an IndexError.  \<open>set_true v idx\<close> is the assignment
  \<open>v[idx] = True\<close> for an array \<open>idx\<close> of indices.\<close>

definition py_index :: "nat \<Rightarrow> int \<Rightarrow> error + nat" where
  "py_index n i =
    (if 0 \<le> i \<and> i < int n then Inr (nat i)
     else if - int n \<le> i \<and> i < 0 then Inr (nat (i + int n))
     else Inl IndexError)"

fun set_true :: "bool list \<Rightarrow> int list \<Rightarrow> error + bool list" where
  "set_true v [] = Inr v"
| "set_true v (i # idx) =
     (case py_index (length v) i of Inl e \<Rightarrow> Inl e
      | Inr j \<Rightarrow> set_true (v[j := True]) idx)"

text \<open>\<open>np.sum\<close> of a vector of truth values: the number of its true entries.\<close>

definition np_sum_bool :: "bool list \<Rightarrow> nat" where
  "np_sum_bool v = length (filter (\<lambda>b. b) v)"

text \<open>
  \<open>np.mean\<close> of one row (the mean along axis 1 is taken row by row).  The mean of a row
  without entries is not a number; it is \<open>None\<close> here, and a comparison with it is
  false, as numpy has it.
\<close>

definition np_mean :: "ary1 \<Rightarrow> real option" where
  "np_mean r = (if r = [] then None else Some (sum_list r / real (length r)))"

definition np_greater :: "real option \<Rightarrow> real \<Rightarrow> bool" where
  "np_greater x thr = (case x of None \<Rightarrow> False | Some v \<Rightarrow> thr < v)"

definition np_less :: "real option \<Rightarrow> real \<Rightarrow> bool" where
  "np_less x thr = (case x of None \<Rightarrow> False | Some v \<Rightarrow> v < thr)"

text \<open>
  \<open>np.logical_and\<close> of two vectors.  numpy broadcasts a vector of one entry to the
  length of the other vector and raises a ValueError for other vectors of unequal
  lengths.
\<close>

definition logical_and :: "bool list \<Rightarrow> bool list \<Rightarrow> error + bool list" where
  "logical_and a b =
    (if length a = length b then Inr (map2 (\<lambda>x y. x \<and> y) a b)
     else if length a = 1 then Inr (map (\<lambda>y. hd a \<and> y) b)
     else if length b = 1 then Inr (map (\<lambda>x. x \<and> hd b) a)
     else Inl ValueError)"

text \<open>\<open>aryTmp[vecInc, :]\<close>: the rows of \<open>aryTmp\<close> at the true entries of \<open>vecInc\<close>; an
  IndexError when \<open>vecInc\<close> has not one entry for every row.\<close>

definition bool_index :: "ary2 \<Rightarrow> bool list \<Rightarrow> error + ary2" where
  "bool_index a v =
    (if length v = length a then Inr (map fst (filter snd (zip a v)))
     else Inl IndexError)"

text \<open>The inclusion vector \<open>vecInc\<close> and the number \<open>varNumInc\<close> of included
  vertices, the two variables that the criteria update.\<close>

type_synonym inc = "bool list \<times> nat"

text \<open>
  Criterion 1 (the vertices of the ROI): the indices are the second column of
  \<open>aryRoiVrtx\<close>; the inclusion vector is made anew.
\<close>

definition slct01 :: "bool \<Rightarrow> ary2 \<Rightarrow> nat \<Rightarrow> inc \<Rightarrow> error + inc" where
  "slct01 lgcSlct01 aryRoiVrtx varOrigNumVtkVrtc s =
    (if lgcSlct01 then
       (if \<not> list_all (\<lambda>r. 2 \<le> length r) aryRoiVrtx then Inl IndexError
        else
          (let vecRoiIdx = map (\<lambda>r. astype_int64 (r ! 1)) aryRoiVrtx in
           case set_true (replicate varOrigNumVtkVrtc False) vecRoiIdx of
             Inl e \<Rightarrow> Inl e
           | Inr vecInc \<Rightarrow> Inr (vecInc, np_sum_bool vecInc)))
     else Inr s)"

text \<open>Criterion 2: the mean across the depth levels is above the threshold.\<close>

definition vecSlct02 :: "ary2 \<Rightarrow> real \<Rightarrow> bool list" where
  "vecSlct02 arySlct02 varThrSlct02 = map (\<lambda>r. np_greater (np_mean r) varThrSlct02) arySlct02"

definition slct02 :: "bool \<Rightarrow> ary2 \<Rightarrow> real \<Rightarrow> inc \<Rightarrow> error + inc" where
  "slct02 lgcSlct02 arySlct02 varThrSlct02 s =
    (if lgcSlct02 then
       (case logical_and (fst s) (vecSlct02 arySlct02 varThrSlct02) of
          Inl e \<Rightarrow> Inl e
        | Inr vecInc \<Rightarrow> Inr (vecInc, np_sum_bool vecInc))
     else Inr s)"

text \<open>Criterion 3: the minimum across the depth levels is above the threshold.  The
  minimum of a row without entries raises a ValueError.\<close>

definition vecSlct03 :: "ary2 \<Rightarrow> real \<Rightarrow> error + bool list" where
  "vecSlct03 arySlct03 varThrSlct03 =
    (case map_err np_min arySlct03 of Inl e \<Rightarrow> Inl e
     | Inr vecMneSlct03 \<Rightarrow> Inr (map (\<lambda>x. varThrSlct03 < x) vecMneSlct03))"

definition slct03 :: "bool \<Rightarrow> ary2 \<Rightarrow> real \<Rightarrow> inc \<Rightarrow> error + inc" where
  "slct03 lgcSlct03 arySlct03 varThrSlct03 s =
    (if lgcSlct03 then
       (case vecSlct03 arySlct03 varThrSlct03 of Inl e \<Rightarrow> Inl e
        | Inr v \<Rightarrow>
          (case logical_and (fst s) v of
             Inl e \<Rightarrow> Inl e
           | Inr vecInc \<Rightarrow> Inr (vecInc, np_sum_bool vecInc)))
     else Inr s)"

text \<open>Criterion 4: the mean across the depth levels is below the threshold.\<close>

definition vecSlct04 :: "ary2 \<Rightarrow> real \<Rightarrow> bool list" where
  "vecSlct04 arySlct04 varThrSlct04 = map (\<lambda>r. np_less (np_mean r) varThrSlct04) arySlct04"

definition slct04 :: "bool \<Rightarrow> ary2 \<Rightarrow> real \<Rightarrow> inc \<Rightarrow> error + inc" where
  "slct04 lgcSlct04 arySlct04 varThrSlct04 s =
    (if lgcSlct04 then
       (case logical_and (fst s) (vecSlct04 arySlct04 varThrSlct04) of
          Inl e \<Rightarrow> Inl e
        | Inr vecInc \<Rightarrow> Inr (vecInc, np_sum_bool vecInc))
     else Inr s)"

text \<open>The loop \<open>for idxIn in range(0, varNumCon)\<close> that applies the inclusion vector to
  the arrays of the list, over the list of the values of \<open>idxIn\<close>.\<close>

fun slct_loop :: "bool list \<Rightarrow> nat list \<Rightarrow> ary2 list \<Rightarrow> error + ary2 list" where
  "slct_loop vecInc [] lstDpthData01 = Inr lstDpthData01"
| "slct_loop vecInc (idxIn # idx) lstDpthData01 =
     (if length lstDpthData01 \<le> idxIn then Inl IndexError
      else
        (case bool_index (lstDpthData01 ! idxIn) vecInc of Inl e \<Rightarrow> Inl e
         | Inr aryTmp \<Rightarrow> slct_loop vecInc idx (lstDpthData01[idxIn := aryTmp])))"

text \<open>
  \<open>funcSlctVrtcs\<close>.  The process ID \<open>idxPrc\<close> decides on the status messages only,
  which are not modelled.  The arguments of a criterion that is switched off are not
  read.
\<close>

definition funcSlctVrtcs ::
  "int \<Rightarrow> ary2 list \<Rightarrow> bool \<Rightarrow> ary2 \<Rightarrow> bool \<Rightarrow> ary2 \<Rightarrow> real \<Rightarrow> bool \<Rightarrow> ary2 \<Rightarrow> real \<Rightarrow>
   bool \<Rightarrow> ary2 \<Rightarrow> real \<Rightarrow> int \<Rightarrow> error + ary2 list \<times> nat \<times> bool list" where
  "funcSlctVrtcs varNumCon lstDpthData01 lgcSlct01 aryRoiVrtx lgcSlct02 arySlct02 varThrSlct02
     lgcSlct03 arySlct03 varThrSlct03 lgcSlct04 arySlct04 varThrSlct04 idxPrc =
    (case lstDpthData01 of [] \<Rightarrow> Inl IndexError
     | ary0 # _ \<Rightarrow>
       (let varOrigNumVtkVrtc = length ary0;
            vecInc = replicate varOrigNumVtkVrtc True;
            varNumInc = np_sum_bool vecInc
        in case slct01 lgcSlct01 aryRoiVrtx varOrigNumVtkVrtc (vecInc, varNumInc) of
             Inl e \<Rightarrow> Inl e
           | Inr s1 \<Rightarrow>
         (case slct02 lgcSlct02 arySlct02 varThrSlct02 s1 of Inl e \<Rightarrow> Inl e
           | Inr s2 \<Rightarrow>
         (case slct03 lgcSlct03 arySlct03 varThrSlct03 s2 of Inl e \<Rightarrow> Inl e
           | Inr s3 \<Rightarrow>
         (case slct04 lgcSlct04 arySlct04 varThrSlct04 s3 of Inl e \<Rightarrow> Inl e
           | Inr s4 \<Rightarrow>
         (case slct_loop (fst s4) [0..<nat varNumCon] lstDpthData01 of Inl e \<Rightarrow> Inl e
           | Inr lst \<Rightarrow> Inr (lst, snd s4, fst s4)))))))"

text \<open>What a later criterion does to the inclusion vector and to the count: nothing, or
  a logical AND with a vector and a new count.\<close>

definition and_step :: "inc \<Rightarrow> inc \<Rightarrow> bool" where
  "and_step s s' =
    (s' = s \<or> (\<exists>b. logical_and (fst s) b = Inr (fst s') \<and> snd s' = np_sum_bool (fst s')))"

section \<open>Percentile bootstrap (\<open>boot_plot.py\<close>)\<close>

text \<open>
  The argument \<open>objDpth\<close> of \<open>boot_plot\<close> is a numpy array, a string with the path of
  the files of the single conditions, or any other object.  \<open>boot_plot\<close> reads the
  numbers of subjects, conditions and depth levels from the shape of the array, and an
  array without subjects still has its numbers of conditions and depth levels, which
  the nested list does not show.  An array is therefore given here as its shape
  \<open>(subjects, conditions, depth levels)\<close> together with its entries.
\<close>

type_synonym shape = "nat \<times> nat \<times> nat"

datatype objDpth = NdArray shape ary3 | Str string | Other

text \<open>
  The median of a sample without entries is numpy's \<open>nan\<close>, and so is a percentile of
  a sample with a \<open>nan\<close> in it.  A number that may be \<open>nan\<close> is an \<open>option\<close>, with \<open>None\<close>
  for \<open>nan\<close>.
\<close>

type_synonym nan_ary2 = "real option list list"
type_synonym nan_ary3 = "real option list list list"

text \<open>
  \<open>boot_plot\<close> returns nothing.  What it computes it hands to the plotting function
  \<open>plt_dpth_prfl\<close>, which is not part of the model: the empirical median as the first
  argument and the two percentile bounds as the arguments \<open>aryCnfLw\<close> and \<open>aryCnfUp\<close>.
  These three arrays are the result of the model.
\<close>

record plt_dpth_prfl =
  aryEmpMed :: nan_ary2
  aryCnfLw :: nan_ary2
  aryCnfUp :: nan_ary2

text \<open>\<open>shape3 s c d a\<close>: the array \<open>a\<close> has the shape \<open>(s, c, d)\<close>.\<close>

definition shape3 :: "nat \<Rightarrow> nat \<Rightarrow> nat \<Rightarrow> ary3 \<Rightarrow> bool" where
  "shape3 s c d a = (length a = s \<and> list_all (shape2 c d) a)"

text \<open>
  \<open>np.median\<close> of a sample: the middle entry of the sorted sample, or the mean of the
  two middle entries; \<open>nan\<close> for a sample without entries (numpy warns and goes on).
  \<open>boot_plot\<close> takes medians of samples of one entry per subject, so that it reaches
  this case for an array without subjects.
\<close>

definition np_median :: "ary1 \<Rightarrow> real option" where
  "np_median a =
    (let s = sort a; n = length a
     in if a = [] then None
        else if odd n then Some (s ! (n div 2))
        else Some ((s ! (n div 2 - 1) + s ! (n div 2)) / 2))"

text \<open>
  \<open>np.percentile\<close> of a sample with at least one entry, for a percentile \<open>q\<close> between
  0 and 100, with the linear interpolation that is numpy's default: the position
  \<open>q / 100 * (n - 1)\<close> in the sorted sample, between the entry below and the entry
  above it.  The percentile of a sample with a \<open>nan\<close> in it is \<open>nan\<close>.
\<close>

definition np_percentile :: "real option list \<Rightarrow> real \<Rightarrow> real option" where
  "np_percentile a q =
    (if None \<in> set a then None
     else
       (let s = sort (map the a); n = length a;
            idx = q / 100 * real (n - 1);
            below = nat \<lfloor>idx\<rfloor>;
            above = min (below + 1) (n - 1);
            w = idx - real below
        in Some (s ! below * (1 - w) + s ! above * w)))"

text \<open>A reduction along the first axis of an array of the shape \<open>(n, c, d)\<close>: the
  function \<open>f\<close> applied to the \<open>n\<close> entries at every position \<open>[i, j]\<close>.\<close>

definition reduce_ax0 ::
  "('a list \<Rightarrow> 'b) \<Rightarrow> nat \<Rightarrow> nat \<Rightarrow> 'a list list list \<Rightarrow> 'b list list" where
  "reduce_ax0 f c d a = map (\<lambda>i. map (\<lambda>j. f (map (\<lambda>x. x ! i ! j) a)) [0..<d]) [0..<c]"

text \<open>
  \<open>np.percentile(a, (q1, q2), axis=0)\<close>.  numpy first refuses a percentile outside of
  \<open>[0, 100]\<close> with a ValueError; on an axis without entries it then fails with an
  IndexError where it takes the entries at the positions computed.
\<close>

definition percentile_ax0 :: "real \<times> real \<Rightarrow> nat \<Rightarrow> nat \<Rightarrow> nan_ary3 \<Rightarrow> error + nan_ary3" where
  "percentile_ax0 q c d a =
    (if fst q < 0 \<or> 100 < fst q \<or> snd q < 0 \<or> 100 < snd q then Inl ValueError
     else if a = [] then Inl IndexError
     else Inr [reduce_ax0 (\<lambda>v. np_percentile v (fst q)) c d a,
               reduce_ax0 (\<lambda>v. np_percentile v (snd q)) c d a])"

text \<open>
  \<open>aryDpth[vecRnd, :, :]\<close> for a vector of indices, assigned to
  \<open>aryBoo[idxIt, :, :, :]\<close>: an IndexError for an index that is no subject, a
  ValueError when there is not one index per subject.  A vector without indices selects
  no subject, which is what an array without subjects takes.  \<open>bootstrap\<close> is the loop
  over the iterations, which reads row \<open>idxIt\<close> of \<open>aryRnd\<close>.
\<close>

definition fancy_index :: "ary3 \<Rightarrow> nat list \<Rightarrow> error + ary3" where
  "fancy_index aryDpth vecRnd =
    (if \<not> list_all (\<lambda>i. i < length aryDpth) vecRnd then Inl IndexError
     else if length vecRnd \<noteq> length aryDpth then Inl ValueError
     else Inr (map (\<lambda>i. aryDpth ! i) vecRnd))"

definition bootstrap :: "ary3 \<Rightarrow> nat list list \<Rightarrow> nat \<Rightarrow> error + ary4" where
  "bootstrap aryDpth aryRnd varNumIt =
     map_err (\<lambda>idxIt. if idxIt < length aryRnd then fancy_index aryDpth (aryRnd ! idxIt)
                       else Inl IndexError) [0..<varNumIt]"

text \<open>
  \<open>np.random.randint(0, high=high, size=(n, m))\<close> returns an array of the shape
  \<open>(n, m)\<close> of numbers from 0 to \<open>high - 1\<close>, any such array.  The array drawn is an
  argument of the model, and \<open>randint high n m aryRnd\<close> says that \<open>aryRnd\<close> is an array
  that the call can return.  For an array without subjects \<open>high\<close> and \<open>m\<close> are zero, and
  the call returns the array of \<open>n\<close> rows without entries.  The call raises a ValueError
  when \<open>n\<close> is negative.
\<close>

definition randint :: "nat \<Rightarrow> nat \<Rightarrow> nat \<Rightarrow> nat list list \<Rightarrow> bool" where
  "randint high n m aryRnd = (shape2 n m aryRnd \<and> list_all (list_all (\<lambda>i. i < high)) aryRnd)"

text \<open>
  \<open>boot_plot\<close>.  \<open>load_npy\<close> stands for the loop that loads the arrays of the single
  conditions from disk when \<open>objDpth\<close> is a path (lines 85 to 98); the file system is not
  modelled.  For an object that is neither an array nor a string the source prints a
  message and then reads the undefined name \<open>aryDpth\<close>.  The source has no check of its
  parameters: a negative number of iterations ends the run in \<open>np.random.randint\<close>, all
  else is left to the calls that follow.  The labels and titles of the plot are left
  out.
\<close>

definition boot_plot ::
  "(string \<Rightarrow> string list \<Rightarrow> error + shape \<times> ary3) \<Rightarrow> nat list list \<Rightarrow>
   string list \<Rightarrow> objDpth \<Rightarrow> string \<Rightarrow> int \<Rightarrow> real \<Rightarrow> real \<Rightarrow> error + plt_dpth_prfl" where
  "boot_plot load_npy aryRnd lstCon objDpth strPath varNumIt varConLw varConUp =
    (case (case objDpth of NdArray shp a \<Rightarrow> Inr (shp, a)
           | Str p \<Rightarrow> load_npy p lstCon
           | Other \<Rightarrow> Inl NameError) of
       Inl e \<Rightarrow> Inl e
     | Inr ((varNumSub, varNumCon, varNumDpth), aryDpth) \<Rightarrow>
         if varNumIt < 0 then Inl ValueError
         else
           (case bootstrap aryDpth aryRnd (nat varNumIt) of Inl e \<Rightarrow> Inl e
            | Inr aryBoo \<Rightarrow>
              (let aryBooMed = map (reduce_ax0 np_median varNumCon varNumDpth) aryBoo
               in case percentile_ax0 (varConLw, varConUp) varNumCon varNumDpth aryBooMed of
                    Inl e \<Rightarrow> Inl e
                  | Inr aryPrct \<Rightarrow>
                      Inr \<lparr>aryEmpMed = reduce_ax0 np_median varNumCon varNumDpth aryDpth,
                           aryCnfLw = aryPrct ! 0,
                           aryCnfUp = aryPrct ! 1\<rparr>)))"

section \<open>Properties of the array operations\<close>

lemma shape2_nth: "shape2 i c a \<Longrightarrow> it < i \<Longrightarrow> length (a ! it) = c"
  by (simp add: shape2_def list_all_length)

lemma shape2_map2:
  "shape2 i c a \<Longrightarrow> shape2 i c b \<Longrightarrow> shape2 i c (map2 (map2 f) a b)"
  by (simp add: shape2_def list_all_length)

lemma shape2_sub2: "shape2 i c a \<Longrightarrow> shape2 i c b \<Longrightarrow> shape2 i c (sub2 a b)"
  unfolding sub2_def by (rule shape2_map2)

lemma shape2_mul2: "shape2 i c a \<Longrightarrow> shape2 i c b \<Longrightarrow> shape2 i c (mul2 a b)"
  unfolding mul2_def by (rule shape2_map2)

lemma shape2_smul: "shape2 i c a \<Longrightarrow> shape2 i c (smul s a)"
  by (simp add: shape2_def smul_def list_all_length)

lemma shape2_get_dpth: "shape2 i c a \<Longrightarrow> shape2 i c (get_dpth a k)"
  by (simp add: shape2_def get_dpth_def list_all_length)

lemma shape2_set_dpth: "shape2 i c a \<Longrightarrow> shape2 i c v \<Longrightarrow> shape2 i c (set_dpth a k v)"
  unfolding set_dpth_def by (rule shape2_map2)

lemma shape2_emp_dpth: "shape2 i (length aryEmp5) (emp_dpth i aryEmp5 k)"
  by (simp add: shape2_def emp_dpth_def list_all_length)

lemma shape2_zeros3: "shape2 i c (zeros3 i c d)"
  by (simp add: shape2_def zeros3_def list_all_length)

lemma shape2_nse_dpth:
  "nse_cons aryNseRnd c \<Longrightarrow> shape2 (length aryNseRnd) c (nse_dpth c aryNseRnd k)"
  by (auto simp: shape2_def nse_dpth_def get_dpth_def nse_cons_def bc_con_def
      list_all_length)

lemma map2_map2_nth:
  "shape2 i c a \<Longrightarrow> shape2 i c b \<Longrightarrow> it < i \<Longrightarrow> con < c \<Longrightarrow>
   map2 (map2 f) a b ! it ! con = f (a ! it ! con) (b ! it ! con)"
  by (simp add: shape2_def list_all_length)

lemma sub2_nth:
  "shape2 i c a \<Longrightarrow> shape2 i c b \<Longrightarrow> it < i \<Longrightarrow> con < c \<Longrightarrow>
   sub2 a b ! it ! con = a ! it ! con - b ! it ! con"
  unfolding sub2_def by (rule map2_map2_nth)

lemma mul2_nth:
  "shape2 i c a \<Longrightarrow> shape2 i c b \<Longrightarrow> it < i \<Longrightarrow> con < c \<Longrightarrow>
   mul2 a b ! it ! con = a ! it ! con * b ! it ! con"
  unfolding mul2_def by (rule map2_map2_nth)

lemma smul_nth:
  "shape2 i c a \<Longrightarrow> it < i \<Longrightarrow> con < c \<Longrightarrow> smul s a ! it ! con = s * a ! it ! con"
  by (simp add: shape2_def smul_def list_all_length)

lemma get_dpth_nth:
  "shape2 i c a \<Longrightarrow> it < i \<Longrightarrow> con < c \<Longrightarrow> get_dpth a k ! it ! con = a ! it ! con ! k"
  by (simp add: shape2_def get_dpth_def list_all_length)

lemma set_dpth_nth:
  "shape2 i c a \<Longrightarrow> shape2 i c v \<Longrightarrow> it < i \<Longrightarrow> con < c \<Longrightarrow>
   set_dpth a k v ! it ! con = (a ! it ! con)[k := v ! it ! con]"
  unfolding set_dpth_def by (rule map2_map2_nth)

lemma emp_dpth_nth:
  "it < i \<Longrightarrow> con < length aryEmp5 \<Longrightarrow> emp_dpth i aryEmp5 k ! it ! con = aryEmp5 ! con ! k"
  by (simp add: emp_dpth_def)

lemma term_nth:
  "shape2 i c a \<Longrightarrow> shape2 i c n \<Longrightarrow> it < i \<Longrightarrow> con < c \<Longrightarrow>
   mul2 (smul s (get_dpth a j)) n ! it ! con = s * a ! it ! con ! j * n ! it ! con"
  by (simp add: mul2_nth [of i c] smul_nth [of i c] get_dpth_nth [of i c]
      shape2_smul shape2_get_dpth)

lemma shape2_term:
  "shape2 i c a \<Longrightarrow> shape2 i c n \<Longrightarrow> shape2 i c (mul2 (smul s (get_dpth a j)) n)"
  by (simp add: shape2_mul2 shape2_smul shape2_get_dpth)

lemma ary2_eqI:
  assumes "shape2 i c a" and "shape2 i c b"
    and "\<And>it con. it < i \<Longrightarrow> con < c \<Longrightarrow> a ! it ! con = b ! it ! con"
  shows "a = b"
proof (rule nth_equalityI)
  show "length a = length b" using assms(1,2) by (simp add: shape2_def)
next
  fix it assume "it < length a"
  then have i: "it < i" using assms(1) by (simp add: shape2_def)
  show "a ! it = b ! it"
  proof (rule nth_equalityI)
    show "length (a ! it) = length (b ! it)"
      using assms(1,2) i by (simp add: shape2_nth)
  next
    fix con assume "con < length (a ! it)"
    then have "con < c" using assms(1) i by (simp add: shape2_nth)
    with i show "a ! it ! con = b ! it ! con" by (simp add: assms(3))
  qed
qed

section \<open>The layers of \<open>deconv_04\<close>, profile by profile\<close>

lemma shape2_deconv_04_layers:
  assumes cons: "nse_cons aryNseRnd (length aryEmp5)"
  shows "shape2 (length aryNseRnd) (length aryEmp5) (deconv_04_layers aryEmp5 aryNseRnd)"
  unfolding deconv_04_layers_def Let_def
  by (intro shape2_set_dpth shape2_sub2 shape2_term shape2_zeros3 shape2_emp_dpth
      shape2_nse_dpth cons)

lemma deconv_04_layers_nth:
  assumes cons: "nse_cons aryNseRnd (length aryEmp5)" and dp: "emp_dpths aryEmp5 5"
    and it: "it < length aryNseRnd" and con: "con < length aryEmp5"
  shows "deconv_04_layers aryEmp5 aryNseRnd ! it ! con =
    (let e = aryEmp5 ! con; f = nse_at aryEmp5 aryNseRnd it con;
         n0 = e ! 0;
         n1 = e ! 1 - 0.6 / 1.9 * n0 * f 1;
         n2 = e ! 2 - 0.3 / 1.5 * n1 * f 2 - 0.6 / 1.9 * n0 * f 2;
         n3 = e ! 3 - 1.3 / 2.2 * n2 * f 3 - 0.3 / 1.5 * n1 * f 3 - 0.5 / 1.9 * n0 * f 3;
         n4 = e ! 4 - 0.7 / 1.7 * n3 * f 4 - 1.3 / 2.2 * n2 * f 4 - 0.3 / 1.5 * n1 * f 4
                - 0.5 / 1.9 * n0 * f 4
     in (replicate (num_dpth aryEmp5) 0)[0 := n0, 1 := n1, 2 := n2, 3 := n3, 4 := n4])"
proof -
  define i where "i = length aryNseRnd"
  define c where "c = length aryEmp5"
  define d where "d = num_dpth aryEmp5"
  define emp where "emp = emp_dpth i aryEmp5"
  define nse where "nse = nse_dpth c aryNseRnd"
  define e where "e = aryEmp5 ! con"
  define f where "f = nse_at aryEmp5 aryNseRnd it con"
  define a0 where "a0 = set_dpth (zeros3 i c d) 0 (emp 0)"
  define a1 where "a1 = set_dpth a0 1
               (sub2 (emp 1)
                     (mul2 (smul (0.6 / 1.9) (get_dpth a0 0)) (nse 1)))"
  define a2 where "a2 = set_dpth a1 2
               (sub2 (sub2 (emp 2)
                           (mul2 (smul (0.3 / 1.5) (get_dpth a1 1)) (nse 2)))
                     (mul2 (smul (0.6 / 1.9) (get_dpth a1 0)) (nse 2)))"
  define a3 where "a3 = set_dpth a2 3
               (sub2 (sub2 (sub2 (emp 3)
                                 (mul2 (smul (1.3 / 2.2) (get_dpth a2 2)) (nse 3)))
                           (mul2 (smul (0.3 / 1.5) (get_dpth a2 1)) (nse 3)))
                     (mul2 (smul (0.5 / 1.9) (get_dpth a2 0)) (nse 3)))"
  define a4 where "a4 = set_dpth a3 4
               (sub2 (sub2 (sub2 (sub2 (emp 4)
                                       (mul2 (smul (0.7 / 1.7) (get_dpth a3 3)) (nse 4)))
                                 (mul2 (smul (1.3 / 2.2) (get_dpth a3 2)) (nse 4)))
                           (mul2 (smul (0.3 / 1.5) (get_dpth a3 1)) (nse 4)))
                     (mul2 (smul (0.5 / 1.9) (get_dpth a3 0)) (nse 4)))"
  define n0 where "n0 = e ! 0"
  define n1 where "n1 = e ! 1 - 0.6 / 1.9 * n0 * f 1"
  define n2 where "n2 = e ! 2 - 0.3 / 1.5 * n1 * f 2 - 0.6 / 1.9 * n0 * f 2"
  define n3 where
    "n3 = e ! 3 - 1.3 / 2.2 * n2 * f 3 - 0.3 / 1.5 * n1 * f 3 - 0.5 / 1.9 * n0 * f 3"
  define n4 where
    "n4 = e ! 4 - 0.7 / 1.7 * n3 * f 4 - 1.3 / 2.2 * n2 * f 4 - 0.3 / 1.5 * n1 * f 4
                - 0.5 / 1.9 * n0 * f 4"
  have d5: "5 \<le> d"
    using dp con unfolding d_def num_dpth_def emp_dpths_def
    by (cases aryEmp5) auto
  have I: "it < i" and C: "con < c" using it con by (simp_all add: i_def c_def)
  have se: "\<And>k. shape2 i c (emp k)"
    unfolding emp_def c_def by (rule shape2_emp_dpth)
  have sn: "\<And>k. shape2 i c (nse k)"
    unfolding nse_def i_def using cons unfolding c_def by (rule shape2_nse_dpth)
  have ek: "\<And>k. emp k ! it ! con = e ! k"
    unfolding emp_def e_def using I con by (rule emp_dpth_nth)
  have fk: "\<And>k. nse k ! it ! con = f k"
    by (simp add: nse_def f_def nse_at_def c_def)
  have z: "zeros3 i c d ! it ! con = replicate d 0"
    using I C by (simp add: zeros3_def)
  note sh = se sn shape2_zeros3 shape2_set_dpth shape2_sub2 shape2_term
  note nth = set_dpth_nth [of i c] sub2_nth [of i c] term_nth [of i c]
  have s0: "shape2 i c a0" unfolding a0_def by (intro sh)
  have v0: "a0 ! it ! con = (replicate d 0)[0 := n0]"
    unfolding a0_def using I C by (simp add: nth sh ek z n0_def)
  have s1: "shape2 i c a1" unfolding a1_def by (intro sh s0)
  have v1: "a1 ! it ! con = (replicate d 0)[0 := n0, 1 := n1]"
    unfolding a1_def using I C d5 by (simp add: nth sh s0 ek fk v0 n1_def)
  have s2: "shape2 i c a2" unfolding a2_def by (intro sh s1)
  have v2: "a2 ! it ! con = (replicate d 0)[0 := n0, 1 := n1, 2 := n2]"
    unfolding a2_def using I C d5 by (simp add: nth sh s1 ek fk v1 n2_def)
  have s3: "shape2 i c a3" unfolding a3_def by (intro sh s2)
  have v3: "a3 ! it ! con = (replicate d 0)[0 := n0, 1 := n1, 2 := n2, 3 := n3]"
    unfolding a3_def using I C d5 by (simp add: nth sh s2 ek fk v2 n3_def)
  have v4: "a4 ! it ! con = (replicate d 0)[0 := n0, 1 := n1, 2 := n2, 3 := n3, 4 := n4]"
    unfolding a4_def using I C d5 by (simp add: nth sh s3 ek fk v3 n4_def)
  have eq: "deconv_04_layers aryEmp5 aryNseRnd = a4"
    unfolding deconv_04_layers_def Let_def a4_def a3_def a2_def a1_def a0_def
      emp_def nse_def i_def c_def d_def ..
  show ?thesis
    unfolding eq v4 Let_def n4_def n3_def n2_def n1_def n0_def e_def f_def d_def ..
qed

lemma deconv_04_Inr:
  assumes "deconv_04 varNumCon aryEmp5 aryNseRnd = Inr aryNrnRnd"
  shows "aryNrnRnd = deconv_04_layers aryEmp5 aryNseRnd"
    and "nse_cons aryNseRnd (length aryEmp5)"
    and "emp_dpths aryEmp5 5" and "nse_dpths aryNseRnd 5"
  using assms by (auto simp: deconv_04_def split: if_splits)

lemma num_dpth_5:
  "emp_dpths aryEmp5 5 \<Longrightarrow> con < length aryEmp5 \<Longrightarrow> 5 \<le> num_dpth aryEmp5"
  unfolding num_dpth_def emp_dpths_def by (cases aryEmp5) auto

lemma get_dpth_deconv_04_layers_0:
  assumes cons: "nse_cons aryNseRnd (length aryEmp5)" and dp: "emp_dpths aryEmp5 5"
  shows "get_dpth (deconv_04_layers aryEmp5 aryNseRnd) 0 =
         emp_dpth (length aryNseRnd) aryEmp5 0"
proof (rule ary2_eqI [of "length aryNseRnd" "length aryEmp5"])
  show "shape2 (length aryNseRnd) (length aryEmp5)
          (get_dpth (deconv_04_layers aryEmp5 aryNseRnd) 0)"
    by (intro shape2_get_dpth shape2_deconv_04_layers cons)
  show "shape2 (length aryNseRnd) (length aryEmp5) (emp_dpth (length aryNseRnd) aryEmp5 0)"
    by (rule shape2_emp_dpth)
next
  fix it con assume it: "it < length aryNseRnd" and con: "con < length aryEmp5"
  have "5 \<le> num_dpth aryEmp5" using dp con by (rule num_dpth_5)
  then have "deconv_04_layers aryEmp5 aryNseRnd ! it ! con ! 0 = aryEmp5 ! con ! 0"
    by (simp add: deconv_04_layers_nth [OF cons dp it con] Let_def)
  then show "get_dpth (deconv_04_layers aryEmp5 aryNseRnd) 0 ! it ! con =
        emp_dpth (length aryNseRnd) aryEmp5 0 ! it ! con"
    using it con
    by (simp add: get_dpth_nth [OF shape2_deconv_04_layers [OF cons]] emp_dpth_nth)
qed

lemma deconv_04_eqs:
  assumes r: "deconv_04 varNumCon aryEmp5 aryNseRnd = Inr aryNrnRnd"
    and it: "it < length aryNseRnd" and con: "con < length aryEmp5"
  defines "e \<equiv> aryEmp5 ! con" and "n \<equiv> aryNrnRnd ! it ! con"
    and "f \<equiv> nse_at aryEmp5 aryNseRnd it con"
  shows "n ! 0 = e ! 0"
    and "n ! 1 = e ! 1 - 0.6 / 1.9 * n ! 0 * f 1"
    and "n ! 2 = e ! 2 - 0.3 / 1.5 * n ! 1 * f 2 - 0.6 / 1.9 * n ! 0 * f 2"
    and "n ! 3 = e ! 3 - 1.3 / 2.2 * n ! 2 * f 3 - 0.3 / 1.5 * n ! 1 * f 3
                 - 0.5 / 1.9 * n ! 0 * f 3"
    and "n ! 4 = e ! 4 - 0.7 / 1.7 * n ! 3 * f 4 - 1.3 / 2.2 * n ! 2 * f 4
                 - 0.3 / 1.5 * n ! 1 * f 4 - 0.5 / 1.9 * n ! 0 * f 4"
    and "length n = num_dpth aryEmp5"
proof -
  note R = deconv_04_Inr [OF r]
  have d: "5 \<le> num_dpth aryEmp5" using R(3) con by (rule num_dpth_5)
  note v = deconv_04_layers_nth [OF R(2) R(3) it con, folded R(1)]
  show "n ! 0 = e ! 0" using d unfolding n_def e_def v Let_def by simp
  show "n ! 1 = e ! 1 - 0.6 / 1.9 * n ! 0 * f 1"
    using d unfolding n_def e_def f_def v Let_def by simp
  show "n ! 2 = e ! 2 - 0.3 / 1.5 * n ! 1 * f 2 - 0.6 / 1.9 * n ! 0 * f 2"
    using d unfolding n_def e_def f_def v Let_def by simp
  show "n ! 3 = e ! 3 - 1.3 / 2.2 * n ! 2 * f 3 - 0.3 / 1.5 * n ! 1 * f 3
                 - 0.5 / 1.9 * n ! 0 * f 3"
    using d unfolding n_def e_def f_def v Let_def by simp
  show "n ! 4 = e ! 4 - 0.7 / 1.7 * n ! 3 * f 4 - 1.3 / 2.2 * n ! 2 * f 4
                 - 0.3 / 1.5 * n ! 1 * f 4 - 0.5 / 1.9 * n ! 0 * f 4"
    using d unfolding n_def e_def f_def v Let_def by simp
  show "length n = num_dpth aryEmp5" unfolding n_def v Let_def by simp
qed


lemma deconv_04_shape:
  assumes r: "deconv_04 varNumCon aryEmp5 aryNseRnd = Inr aryNrnRnd"
  shows "shape2 (length aryNseRnd) (length aryEmp5) aryNrnRnd"
  unfolding deconv_04_Inr(1) [OF r]
  by (rule shape2_deconv_04_layers) (rule deconv_04_Inr(2) [OF r])

lemma deconv_04_returns:
  assumes "emp_dpths aryEmp5 5" and "nse_dpths aryNseRnd 5"
    and "nse_cons aryNseRnd (length aryEmp5)"
  shows "deconv_04 varNumCon aryEmp5 aryNseRnd = Inr (deconv_04_layers aryEmp5 aryNseRnd)"
proof -
  have "emp_dpths aryEmp5 2"
    using assms(1) by (fastforce simp: emp_dpths_def list_all_iff)
  moreover have "nse_dpths aryNseRnd 2"
    using assms(2) by (fastforce simp: nse_dpths_def list_all_iff)
  ultimately show ?thesis using assms by (simp add: deconv_04_def)
qed

lemma take_5_update:
  assumes "5 \<le> d"
  shows "take 5 ((replicate d (0::real))[0 := a, 1 := b, 2 := c, 3 := x, 4 := y]) = [a, b, c, x, y]"
proof -
  define m where "m = d - 5"
  have "d = Suc (Suc (Suc (Suc (Suc m))))" using assms by (simp add: m_def)
  then show ?thesis by (simp add: eval_nat_numeral)
qed

lemma nse_at_bc:
  assumes it: "it < length aryNseRnd" and con: "con < length aryEmp5"
    and c: "length (aryNseRnd ! it) = length aryEmp5 \<or> length (aryNseRnd ! it) = 1"
  shows "nse_at aryEmp5 aryNseRnd it con k =
         aryNseRnd ! it ! (if length (aryNseRnd ! it) = 1 then 0 else con) ! k"
proof (cases "length (aryNseRnd ! it) = 1")
  case True
  then obtain r where "aryNseRnd ! it = [r]"
    by (cases "aryNseRnd ! it") auto
  with it con show ?thesis
    by (simp add: nse_at_def nse_dpth_def get_dpth_def bc_con_def)
next
  case False
  with it con c show ?thesis
    by (simp add: nse_at_def nse_dpth_def get_dpth_def bc_con_def)
qed


lemma aryNseRnd_of_nth:
  assumes "it < length aryRandn" and "con < length (aryRandn ! it)"
    and "k < length (aryRandn ! it ! con)"
  shows "aryNseRnd_of aryRandn varNseRndSd ! it ! con ! k =
         aryRandn ! it ! con ! k * varNseRndSd + 1.0"
  using assms by (simp add: aryNseRnd_of_def)

lemma aryNseRnd_of_shape:
  "length (aryNseRnd_of aryRandn varNseRndSd) = length aryRandn"
  "it < length aryRandn \<Longrightarrow>
     length (aryNseRnd_of aryRandn varNseRndSd ! it) = length (aryRandn ! it)"
  "it < length aryRandn \<Longrightarrow> con < length (aryRandn ! it) \<Longrightarrow>
     length (aryNseRnd_of aryRandn varNseRndSd ! it ! con) = length (aryRandn ! it ! con)"
  by (simp_all add: aryNseRnd_of_def)

lemma deconv_04_frame:
  assumes r: "deconv_04 varNumCon aryEmp5 aryNseRnd = Inr aryNrnRnd"
    and r': "deconv_04 varNumCon aryEmp5' aryNseRnd = Inr aryNrnRnd'"
    and it: "it < length aryNseRnd" and con: "con < length aryEmp5"
    and len: "length aryEmp5' = length aryEmp5" and k: "k < 5"
    and tk: "take (Suc k) (aryEmp5' ! con) = take (Suc k) (aryEmp5 ! con)"
  shows "aryNrnRnd' ! it ! con ! k = aryNrnRnd ! it ! con ! k"
proof -
  have con': "con < length aryEmp5'" using con len by simp
  note E = deconv_04_eqs [OF r it con] and E' = deconv_04_eqs [OF r' it con']
  have f: "nse_at aryEmp5' aryNseRnd it con = nse_at aryEmp5 aryNseRnd it con"
    by (rule ext) (simp add: nse_at_def len)
  have e: "aryEmp5' ! con ! j = aryEmp5 ! con ! j" if "j \<le> k" for j
  proof -
    have "take (Suc k) (aryEmp5' ! con) ! j = take (Suc k) (aryEmp5 ! con) ! j"
      by (simp only: tk)
    with that show ?thesis by simp
  qed
  have n0: "aryNrnRnd' ! it ! con ! 0 = aryNrnRnd ! it ! con ! 0"
    unfolding E(1) E'(1) by (simp add: e)
  have n1: "aryNrnRnd' ! it ! con ! 1 = aryNrnRnd ! it ! con ! 1" if "1 \<le> k"
    unfolding E(2) E'(2) f n0 using that by (simp add: e)
  have n2: "aryNrnRnd' ! it ! con ! 2 = aryNrnRnd ! it ! con ! 2" if "2 \<le> k"
    unfolding E(3) E'(3) f n0 using that n1 by (simp add: e)
  have n3: "aryNrnRnd' ! it ! con ! 3 = aryNrnRnd ! it ! con ! 3" if "3 \<le> k"
    unfolding E(4) E'(4) f n0 using that n1 n2 by (simp add: e)
  have n4: "aryNrnRnd' ! it ! con ! 4 = aryNrnRnd ! it ! con ! 4" if "4 \<le> k"
    unfolding E(5) E'(5) f n0 using that n1 n2 n3 by (simp add: e)
  from k consider "k = 0" | "k = 1" | "k = 2" | "k = 3" | "k = 4" by linarith
  then show ?thesis using n0 n1 n2 n3 n4 by cases simp_all
qed

text \<open>Evaluation of \<open>deconv_04\<close> on given arrays.\<close>

lemmas deconv_04_eval = deconv_04_def deconv_04_layers_def emp_dpths_def nse_dpths_def
  nse_cons_def zeros3_def get_dpth_def set_dpth_def emp_dpth_def bc_con_def nse_dpth_def
  smul_def mul2_def sub2_def num_dpth_def Let_def


section \<open>The grids of the resampling\<close>

lemma fold_min_Min: "fold min xs (x::real) = Min (set (x # xs))"
  by (simp only: Min.set_eq_fold)

lemma fold_max_Max: "fold max xs (x::real) = Max (set (x # xs))"
  by (simp only: Max.set_eq_fold)

lemma linspace_length: "length (linspace a b n) = n"
  by (simp add: linspace_def)

lemma linspace_nth:
  assumes "2 \<le> n" and "i < n"
  shows "linspace a b n ! i = a + real i * ((b - a) / real (n - 1))"
proof (cases "i = n - 1")
  case True
  with assms show ?thesis by (simp add: linspace_def nth_append)
next
  case False
  with assms have "i < n - 1" by simp
  with assms show ?thesis by (simp add: linspace_def nth_append)
qed


lemma vecPosMdl_cases:
  assumes "vecPosMdl strRoi = Inr m"
  shows "(strRoi = ''v1'' \<and> m = [0.1, 0.25, 0.5, 0.8, 0.95]) \<or>
         (strRoi = ''v2'' \<and> m = [160 / 1700, 590 / 1700, 1110 / 1700, 1400 / 1700, 1620 / 1700])"
  using assms by (auto simp: vecPosMdl_def split: if_splits)

lemma vecPosEmp_linspace:
  assumes "vecPosMdl strRoi = Inr m"
  shows "vecPosEmp strRoi n = Inr (linspace (Min (set m)) (Max (set m)) n)"
proof -
  from vecPosMdl_cases [OF assms] obtain x xs where m: "m = x # xs" by auto
  show ?thesis
    unfolding vecPosEmp_def assms np_min_def np_max_def m
    by (simp only: sum.case list.case fold_min_Min fold_max_Max)
qed

lemma vecIntpEqui_linspace:
  assumes "vecPosMdl strRoi = Inr m"
  shows "vecIntpEqui strRoi n = Inr (linspace (Min (set m)) (Max (set m)) n)"
proof -
  from vecPosMdl_cases [OF assms] obtain x xs where m: "m = x # xs" by auto
  show ?thesis
    unfolding vecIntpEqui_def assms np_min_def np_max_def m
    by (simp only: sum.case list.case fold_min_Min fold_max_Max)
qed

lemma linspace_step:
  assumes "Suc i < n"
  shows "linspace a b n ! Suc i - linspace a b n ! i = (b - a) / real (n - 1)"
proof -
  have n: "2 \<le> n" and i: "i < n" using assms by simp_all
  define s where "s = (b - a) / real (n - 1)"
  show ?thesis
    unfolding linspace_nth [OF n assms] linspace_nth [OF n i] s_def [symmetric]
    by (simp add: algebra_simps)
qed

lemma linspace_ends:
  assumes "2 \<le> n"
  shows "linspace a b n ! 0 = a" and "linspace a b n ! (n - 1) = b"
  using assms by (simp_all add: linspace_def nth_append)

section \<open>The inclusion vector of the vertex selection\<close>

lemma np_sum_bool_mono:
  assumes "length c = length a" and "\<And>i. i < length a \<Longrightarrow> c ! i \<Longrightarrow> a ! i"
  shows "np_sum_bool c \<le> np_sum_bool a"
proof -
  have "{i. i < length c \<and> c ! i} \<subseteq> {i. i < length a \<and> a ! i}"
    using assms by auto
  then have "card {i. i < length c \<and> c ! i} \<le> card {i. i < length a \<and> a ! i}"
    by (intro card_mono) simp_all
  then show ?thesis
    by (simp add: np_sum_bool_def length_filter_conv_card)
qed

lemma logical_and_length:
  assumes "logical_and a b = Inr c"
  shows "length c = length a \<or> (length a = 1 \<and> length c \<noteq> 1)"
  using assms by (auto simp: logical_and_def split: if_splits)

lemma logical_and_imp:
  assumes "logical_and a b = Inr c" and "length c = length a" and "i < length a"
    and "c ! i"
  shows "a ! i"
  using assms by (auto simp: logical_and_def split: if_splits)

lemma logical_and_sum:
  assumes "logical_and a b = Inr c" and "length c = length a"
  shows "np_sum_bool c \<le> np_sum_bool a"
  using assms(2) logical_and_imp [OF assms] by (rule np_sum_bool_mono)

lemma set_true_length: "set_true v idx = Inr w \<Longrightarrow> length w = length v"
  by (induction v idx rule: set_true.induct) (auto split: sum.splits)

lemma slct01_length:
  assumes "slct01 lgcSlct01 aryRoiVrtx n (replicate n True, k) = Inr s"
  shows "length (fst s) = n"
  using assms
  by (auto simp: slct01_def Let_def split: if_splits sum.splits dest: set_true_length)

lemma slct01_sum:
  assumes "slct01 lgcSlct01 aryRoiVrtx n (v, np_sum_bool v) = Inr s"
  shows "snd s = np_sum_bool (fst s)"
  using assms by (auto simp: slct01_def Let_def split: if_splits sum.splits)

lemma slct02_step: "slct02 l a t s = Inr s' \<Longrightarrow> and_step s s'"
  by (auto simp: slct02_def and_step_def split: if_splits sum.splits)

lemma slct03_step: "slct03 l a t s = Inr s' \<Longrightarrow> and_step s s'"
  by (auto simp: slct03_def and_step_def split: if_splits sum.splits)

lemma slct04_step: "slct04 l a t s = Inr s' \<Longrightarrow> and_step s s'"
  by (auto simp: slct04_def and_step_def split: if_splits sum.splits)

lemma and_step_length:
  assumes "and_step s s'"
  shows "length (fst s') = length (fst s) \<or> (length (fst s) = 1 \<and> length (fst s') \<noteq> 1)"
  using assms by (auto simp: and_step_def dest: logical_and_length)

lemma and_step_sum:
  assumes "and_step s s'" and "snd s = np_sum_bool (fst s)"
  shows "snd s' = np_sum_bool (fst s')"
  using assms by (auto simp: and_step_def)

lemma and_step_mono:
  assumes "and_step s s'" and "snd s = np_sum_bool (fst s)"
    and "length (fst s') = length (fst s)"
  shows "snd s' \<le> snd s" and "\<And>i. i < length (fst s) \<Longrightarrow> fst s' ! i \<Longrightarrow> fst s ! i"
proof -
  from assms(1) consider "s' = s"
    | b where "logical_and (fst s) b = Inr (fst s')" "snd s' = np_sum_bool (fst s')"
    by (auto simp: and_step_def)
  then show "snd s' \<le> snd s"
  proof cases
    case 1 then show ?thesis by simp
  next
    case 2 then show ?thesis using assms(2,3) by (simp add: logical_and_sum)
  qed
  fix i assume i: "i < length (fst s)" and t: "fst s' ! i"
  from assms(1) consider "s' = s"
    | b where "logical_and (fst s) b = Inr (fst s')"
    by (auto simp: and_step_def)
  then show "fst s ! i"
  proof cases
    case 1 then show ?thesis using t by simp
  next
    case 2 then show ?thesis using assms(3) i t by (rule logical_and_imp)
  qed
qed

lemma length_chain:
  fixes a b c d :: nat
  assumes "b = a \<or> (a = 1 \<and> b \<noteq> 1)" and "c = b \<or> (b = 1 \<and> c \<noteq> 1)"
    and "d = c \<or> (c = 1 \<and> d \<noteq> 1)" and "d = a"
  shows "b = a" and "c = a"
  using assms by metis+

lemma and_steps_length:
  assumes "and_step s1 s2" and "and_step s2 s3" and "and_step s3 s4"
    and "length (fst s4) = length (fst s1)"
  shows "length (fst s2) = length (fst s1)" and "length (fst s3) = length (fst s1)"
  using length_chain [OF and_step_length [OF assms(1)] and_step_length [OF assms(2)]
    and_step_length [OF assms(3)] assms(4)]
  by blast+

lemma filter_snd_zip:
  "length a = length v \<Longrightarrow> length (filter snd (zip a v)) = length (filter (\<lambda>b. b) v)"
  by (induction a v rule: list_induct2) simp_all

lemma bool_index_length:
  assumes "bool_index a v = Inr b"
  shows "length b = np_sum_bool v" and "length v = length a"
proof -
  show l: "length v = length a"
    using assms by (simp add: bool_index_def split: if_splits)
  have b: "b = map fst (filter snd (zip a v))"
    using assms by (simp add: bool_index_def split: if_splits)
  show "length b = np_sum_bool v"
    unfolding b np_sum_bool_def using l by (simp add: filter_snd_zip)
qed

lemma slct_loop_rows:
  assumes "slct_loop vecInc idx lst = Inr lst'" and "distinct idx"
  shows "length lst' = length lst \<and>
    (\<forall>j \<in> set idx. length (lst' ! j) = np_sum_bool vecInc \<and> length vecInc = length (lst ! j)) \<and>
    (\<forall>j. j \<notin> set idx \<longrightarrow> lst' ! j = lst ! j)"
  using assms
proof (induction vecInc idx lst rule: slct_loop.induct)
  case (1 vecInc lstDpthData01)
  then show ?case by simp
next
  case (2 vecInc idxIn idx lstDpthData01)
  from "2.prems"(1) obtain aryTmp where
    b: "bool_index (lstDpthData01 ! idxIn) vecInc = Inr aryTmp"
    and i: "idxIn < length lstDpthData01"
    and r: "slct_loop vecInc idx (lstDpthData01[idxIn := aryTmp]) = Inr lst'"
    by (auto split: if_splits sum.splits)
  have d: "distinct idx" and n: "idxIn \<notin> set idx" using "2.prems"(2) by simp_all
  have ih: "length lst' = length (lstDpthData01[idxIn := aryTmp]) \<and>
    (\<forall>j \<in> set idx. length (lst' ! j) = np_sum_bool vecInc \<and>
        length vecInc = length (lstDpthData01[idxIn := aryTmp] ! j)) \<and>
    (\<forall>j. j \<notin> set idx \<longrightarrow> lst' ! j = lstDpthData01[idxIn := aryTmp] ! j)"
    using "2.IH" [OF _ b r d] i by simp
  from ih n have h: "lst' ! idxIn = aryTmp" using i by simp
  have u: "lstDpthData01[idxIn := aryTmp] ! j = lstDpthData01 ! j" if "j \<noteq> idxIn" for j
    using that by simp
  show ?case
  proof (intro conjI ballI allI impI)
    show "length lst' = length lstDpthData01" using ih by simp
  next
    fix j assume j: "j \<in> set (idxIn # idx)"
    show "length (lst' ! j) = np_sum_bool vecInc"
    proof (cases "j = idxIn")
      case True then show ?thesis using h bool_index_length(1) [OF b] by simp
    next
      case False then show ?thesis using j ih by simp
    qed
    show "length vecInc = length (lstDpthData01 ! j)"
    proof (cases "j = idxIn")
      case True then show ?thesis using bool_index_length(2) [OF b] by simp
    next
      case False
      then have "j \<in> set idx" using j by simp
      with ih have "length vecInc = length (lstDpthData01[idxIn := aryTmp] ! j)" by simp
      then show ?thesis using u [OF False] by simp
    qed
  next
    fix j assume "j \<notin> set (idxIn # idx)"
    then have "j \<notin> set idx" and "j \<noteq> idxIn" by simp_all
    then show "lst' ! j = lstDpthData01 ! j" using ih u by simp
  qed
qed


lemma funcSlctVrtcs_stages:
  assumes "funcSlctVrtcs varNumCon lstDpthData01 lgcSlct01 aryRoiVrtx lgcSlct02 arySlct02
     varThrSlct02 lgcSlct03 arySlct03 varThrSlct03 lgcSlct04 arySlct04 varThrSlct04 idxPrc =
     Inr (lst, varNumInc, vecInc)"
  obtains ary0 rest s1 s2 s3 where "lstDpthData01 = ary0 # rest"
    and "slct01 lgcSlct01 aryRoiVrtx (length ary0)
           (replicate (length ary0) True, np_sum_bool (replicate (length ary0) True)) = Inr s1"
    and "slct02 lgcSlct02 arySlct02 varThrSlct02 s1 = Inr s2"
    and "slct03 lgcSlct03 arySlct03 varThrSlct03 s2 = Inr s3"
    and "slct04 lgcSlct04 arySlct04 varThrSlct04 s3 = Inr (vecInc, varNumInc)"
    and "slct_loop vecInc [0..<nat varNumCon] lstDpthData01 = Inr lst"
  using assms unfolding funcSlctVrtcs_def Let_def
  by (auto split: list.splits sum.splits)

lemma astype_int64_eval:
  "astype_int64 (5 / 2) = 2" "astype_int64 0 = 0" "astype_int64 (- 1) = - 1"
proof -
  show "astype_int64 (5 / 2) = 2" "astype_int64 0 = 0" by (simp_all add: astype_int64_def)
  have "\<lceil>- 1 :: real\<rceil> = - 1" by (simp add: ceiling_minus)
  then show "astype_int64 (- 1) = - 1" by (simp add: astype_int64_def)
qed

lemma slct01_example: "slct01 True [[0, 5 / 2], [0, 0], [0, - 1]] (Suc (Suc (Suc 0))) s =
    Inr ([True, False, True], 2)"
  by (simp add: slct01_def astype_int64_eval py_index_def np_sum_bool_def)

lemma slct02_example: "slct02 True [[1, 2], [3, 4], [5, 6]] 2 ([True, False, True], k) =
    Inr ([False, False, True], 1)"
  by (simp add: slct02_def vecSlct02_def logical_and_def np_mean_def np_greater_def
      np_sum_bool_def)

lemma slct03_off: "slct03 False [] 0 s = Inr s"
  by (simp add: slct03_def)

lemma slct04_example: "slct04 True [[1], [1], [1]] 5 ([False, False, True], k) =
    Inr ([False, False, True], 1)"
  by (simp add: slct04_def vecSlct04_def logical_and_def np_mean_def np_less_def
      np_sum_bool_def)

lemma upt_2: "[0..<2] = [0, Suc 0]"
  by (simp add: upt_rec)

section \<open>The steps of the bootstrap\<close>

lemma map_err_Inr:
  "(\<And>x. x \<in> set xs \<Longrightarrow> f x = Inr (g x)) \<Longrightarrow> map_err f xs = Inr (map g xs)"
  by (induction xs) simp_all

lemma map_nth_upt: "map (\<lambda>s. f (a ! s)) [0..<length a] = map f a"
  by (rule nth_equalityI) simp_all

lemma reduce_ax0_nth:
  "i < c \<Longrightarrow> j < d \<Longrightarrow> reduce_ax0 f c d a ! i ! j = f (map (\<lambda>x. x ! i ! j) a)"
  by (simp add: reduce_ax0_def)

lemma reduce_ax0_length: "length (reduce_ax0 f c d a) = c"
  by (simp add: reduce_ax0_def)

lemma bootstrap_Inr:
  assumes rnd: "randint S n S aryRnd" and len: "length aryDpth = S"
  shows "bootstrap aryDpth aryRnd n =
         Inr (map (\<lambda>it. map (\<lambda>i. aryDpth ! i) (aryRnd ! it)) [0..<n])"
  unfolding bootstrap_def
proof (rule map_err_Inr)
  fix it assume "it \<in> set [0..<n]"
  then have it: "it < length aryRnd" using rnd by (simp add: randint_def shape2_def)
  have "length (aryRnd ! it) = S" and "list_all (\<lambda>i. i < S) (aryRnd ! it)"
    using rnd it by (simp_all add: randint_def shape2_def list_all_length)
  then have "fancy_index aryDpth (aryRnd ! it) = Inr (map (\<lambda>i. aryDpth ! i) (aryRnd ! it))"
    using len by (simp add: fancy_index_def)
  with it show "(if it < length aryRnd then fancy_index aryDpth (aryRnd ! it)
        else Inl IndexError) = Inr (map (\<lambda>i. aryDpth ! i) (aryRnd ! it))"
    by simp
qed

text \<open>The run of \<open>boot_plot\<close> on an array, once the random indices are drawn.\<close>

lemma boot_plot_NdArray:
  assumes len: "length aryDpth = S" and I: "0 \<le> varNumIt"
    and rnd: "randint S (nat varNumIt) S aryRnd"
  shows "boot_plot load_npy aryRnd lstCon (NdArray (S, c, d) aryDpth) strPath varNumIt
      varConLw varConUp =
    (let aryBoo = map (\<lambda>it. map (\<lambda>i. aryDpth ! i) (aryRnd ! it)) [0..<nat varNumIt];
         aryBooMed = map (reduce_ax0 np_median c d) aryBoo
     in case percentile_ax0 (varConLw, varConUp) c d aryBooMed of
          Inl e \<Rightarrow> Inl e
        | Inr aryPrct \<Rightarrow>
            Inr \<lparr>aryEmpMed = reduce_ax0 np_median c d aryDpth,
                 aryCnfLw = aryPrct ! 0, aryCnfUp = aryPrct ! 1\<rparr>)"
  using I by (simp add: boot_plot_def Let_def bootstrap_Inr [OF rnd len] comp_def)

lemma boot_plot_negative:
  "varNumIt < 0 \<Longrightarrow>
   boot_plot load_npy aryRnd lstCon (NdArray shp aryDpth) strPath varNumIt varConLw varConUp
     = Inl ValueError"
  by (cases shp) (simp add: boot_plot_def)

text \<open>The median of a sample with an entry is a number, and so is a percentile of a
  sample of numbers.\<close>

lemma np_median_Some: "a \<noteq> [] \<Longrightarrow> np_median a \<noteq> None"
  by (cases "odd (length a)") (simp_all add: np_median_def Let_def)

lemma np_percentile_Some: "None \<notin> set a \<Longrightarrow> np_percentile a q \<noteq> None"
  by (simp add: np_percentile_def Let_def)

lemma np_median_examples:
  "np_median [1, 1, 6] = Some 1" "np_median [2, 6, 1] = Some 2" "np_median [1, 2, 6] = Some 2"
  by (simp_all add: np_median_def)

lemma np_percentile_examples:
  "np_percentile [Some 1, Some 2] 25 = Some (5 / 4)" "np_percentile [Some 1, Some 2] 100 = Some 2"
  by (simp_all add: np_percentile_def)

text \<open>
  An array without subjects, of two conditions and three depth levels, with two
  iterations: \<open>randint\<close> returns the two rows without entries, every median is taken of a
  sample without entries, and the run ends without an error, with arrays of \<open>nan\<close> for
  the plot.
\<close>

lemma boot_plot_no_subjects:
  "randint 0 2 0 [[], []]"
  "boot_plot load_npy [[], []] lstCon (NdArray (0, 2, 3) []) strPath 2 (5 / 2) (195 / 2) =
     Inr \<lparr>aryEmpMed = [[None, None, None], [None, None, None]],
          aryCnfLw = [[None, None, None], [None, None, None]],
          aryCnfUp = [[None, None, None], [None, None, None]]\<rparr>"
proof -
  show "randint 0 2 0 [[], []]" by (simp add: randint_def shape2_def)
  have u: "[0..<2] = [0, Suc 0]" "[0..<3] = [0, Suc 0, 2]"
    by (simp_all add: upt_rec)
  have b: "bootstrap [] [[], []] 2 = Inr [[], []]"
    by (simp add: bootstrap_def u fancy_index_def)
  have m: "reduce_ax0 np_median 2 3 [] = [[None, None, None], [None, None, None]]"
    by (simp add: reduce_ax0_def u np_median_def)
  have p: "reduce_ax0 (\<lambda>v. np_percentile v q) 2 3
       [[[None, None, None], [None, None, None]], [[None, None, None], [None, None, None]]]
     = [[None, None, None], [None, None, None]]" for q
    by (simp add: reduce_ax0_def u np_percentile_def)
  show "boot_plot load_npy [[], []] lstCon (NdArray (0, 2, 3) []) strPath 2 (5 / 2) (195 / 2) =
     Inr \<lparr>aryEmpMed = [[None, None, None], [None, None, None]],
          aryCnfLw = [[None, None, None], [None, None, None]],
          aryCnfUp = [[None, None, None], [None, None, None]]\<rparr>"
    by (simp add: boot_plot_def Let_def b m p percentile_ax0_def)
qed

section \<open>Claims on the deconvolution\<close>

text \<open>
  Claim C1 (as amended).  \<open>deconv_04\<close> corrects the layers from the deepest to the
  most superficial one.  In every iteration and for every condition, the corrected value
  of a layer is its observed value minus, for every deeper layer, the corrected value of
  that deeper layer times a fixed ratio and times the noise factor that the noise array
  holds for the layer being corrected (the ratios are those of the source: 0.6/1.9 for
  layer V; 0.3/1.5 and 0.6/1.9 for layer IV; 1.3/2.2, 0.3/1.5 and 0.5/1.9 for layer
  II/III; 0.7/1.7, 1.3/2.2, 0.3/1.5 and 0.5/1.9 for layer I).  With noise factors equal
  to one this is the observed value minus ratio times corrected deeper value.  No
  corrected value depends on the observed value of a shallower layer: two runs whose
  profiles agree up to depth level \<open>k\<close> return the same corrected value at \<open>k\<close>.
\<close>

theorem deconv_04_back_substitution:
  assumes r: "deconv_04 varNumCon aryEmp5 aryNseRnd = Inr aryNrnRnd"
    and it: "it < length aryNseRnd" and con: "con < length aryEmp5"
  shows "(let e = aryEmp5 ! con; n = aryNrnRnd ! it ! con;
              f = nse_at aryEmp5 aryNseRnd it con
          in n ! 0 = e ! 0 \<and>
             n ! 1 = e ! 1 - 0.6 / 1.9 * n ! 0 * f 1 \<and>
             n ! 2 = e ! 2 - 0.3 / 1.5 * n ! 1 * f 2 - 0.6 / 1.9 * n ! 0 * f 2 \<and>
             n ! 3 = e ! 3 - 1.3 / 2.2 * n ! 2 * f 3 - 0.3 / 1.5 * n ! 1 * f 3
                       - 0.5 / 1.9 * n ! 0 * f 3 \<and>
             n ! 4 = e ! 4 - 0.7 / 1.7 * n ! 3 * f 4 - 1.3 / 2.2 * n ! 2 * f 4
                       - 0.3 / 1.5 * n ! 1 * f 4 - 0.5 / 1.9 * n ! 0 * f 4) \<and>
         (\<forall>aryEmp5' aryNrnRnd' k.
             deconv_04 varNumCon aryEmp5' aryNseRnd = Inr aryNrnRnd' \<and>
             length aryEmp5' = length aryEmp5 \<and> k < 5 \<and>
             take (Suc k) (aryEmp5' ! con) = take (Suc k) (aryEmp5 ! con) \<longrightarrow>
             aryNrnRnd' ! it ! con ! k = aryNrnRnd ! it ! con ! k)"
proof (intro conjI allI impI)
  show "let e = aryEmp5 ! con; n = aryNrnRnd ! it ! con;
              f = nse_at aryEmp5 aryNseRnd it con
          in n ! 0 = e ! 0 \<and>
             n ! 1 = e ! 1 - 0.6 / 1.9 * n ! 0 * f 1 \<and>
             n ! 2 = e ! 2 - 0.3 / 1.5 * n ! 1 * f 2 - 0.6 / 1.9 * n ! 0 * f 2 \<and>
             n ! 3 = e ! 3 - 1.3 / 2.2 * n ! 2 * f 3 - 0.3 / 1.5 * n ! 1 * f 3
                       - 0.5 / 1.9 * n ! 0 * f 3 \<and>
             n ! 4 = e ! 4 - 0.7 / 1.7 * n ! 3 * f 4 - 1.3 / 2.2 * n ! 2 * f 4
                       - 0.3 / 1.5 * n ! 1 * f 4 - 0.5 / 1.9 * n ! 0 * f 4"
    unfolding Let_def by (intro conjI deconv_04_eqs [OF r it con])
next
  fix aryEmp5' aryNrnRnd' k
  assume a: "deconv_04 varNumCon aryEmp5' aryNseRnd = Inr aryNrnRnd' \<and>
             length aryEmp5' = length aryEmp5 \<and> k < 5 \<and>
             take (Suc k) (aryEmp5' ! con) = take (Suc k) (aryEmp5 ! con)"
  from a have r': "deconv_04 varNumCon aryEmp5' aryNseRnd = Inr aryNrnRnd'"
    and len: "length aryEmp5' = length aryEmp5" and k: "k < 5"
    and tk: "take (Suc k) (aryEmp5' ! con) = take (Suc k) (aryEmp5 ! con)"
    by simp_all
  show "aryNrnRnd' ! it ! con ! k = aryNrnRnd ! it ! con ! k"
    by (rule deconv_04_frame [OF r r' it con len k tk])
qed

theorem deconv_04_back_substitution_witness:
  "deconv_04 1 [[1.9, 2.1, 3, 4, 5]] [[[1, 2, 1, 1, 1]], [[7, 1, 1, 1, 1]]] =
     Inr [[[19 / 10, 9 / 10, 111 / 50, 2209 / 1100, 4079 / 1870]],
          [[19 / 10, 3 / 2, 21 / 10, 431 / 220, 805 / 374]]] \<and>
   (9 / 10 :: real) = 2.1 - 0.6 / 1.9 * (19 / 10) * 2 \<and>
   (111 / 50 :: real) = 3 - 0.3 / 1.5 * (9 / 10) * 1 - 0.6 / 1.9 * (19 / 10) * 1 \<and>
   deconv_04 1 [[1.9, 2.1, 3, 9, 9]] [[[1, 2, 1, 1, 1]], [[7, 1, 1, 1, 1]]] =
     Inr [[[19 / 10, 9 / 10, 111 / 50, 7709 / 1100, 7709 / 1870]],
          [[19 / 10, 3 / 2, 21 / 10, 1531 / 220, 1531 / 374]]] \<and>
   [[[19 / 10, 9 / 10, 111 / 50, 7709 / 1100, 7709 / 1870]],
     [[19 / 10, 3 / 2, 21 / 10, 1531 / 220, 1531 / 374 :: real]]] ! 0 ! 0 ! 2 =
   [[[19 / 10, 9 / 10, 111 / 50, 2209 / 1100, 4079 / 1870]],
     [[19 / 10, 3 / 2, 21 / 10, 431 / 220, 805 / 374 :: real]]] ! 0 ! 0 ! 2"
proof -
  have r: "deconv_04 1 [[1.9, 2.1, 3, 4, 5]] [[[1, 2, 1, 1, 1]], [[7, 1, 1, 1, 1]]] =
     Inr [[[19 / 10, 9 / 10, 111 / 50, 2209 / 1100, 4079 / 1870]],
          [[19 / 10, 3 / 2, 21 / 10, 431 / 220, 805 / 374]]]"
    by (simp add: deconv_04_eval)
  have r': "deconv_04 1 [[1.9, 2.1, 3, 9, 9]] [[[1, 2, 1, 1, 1]], [[7, 1, 1, 1, 1]]] =
     Inr [[[19 / 10, 9 / 10, 111 / 50, 7709 / 1100, 7709 / 1870]],
          [[19 / 10, 3 / 2, 21 / 10, 1531 / 220, 1531 / 374]]]"
    by (simp add: deconv_04_eval)
  have f: "nse_at [[1.9, 2.1, 3, 4, 5]] [[[1, 2, 1, 1, 1]], [[7, 1, 1, 1, 1]]] 0 0 1 = 2"
    "nse_at [[1.9, 2.1, 3, 4, 5]] [[[1, 2, 1, 1, 1]], [[7, 1, 1, 1, 1]]] 0 0 2 = 1"
    by (simp_all add: nse_at_def nse_dpth_def get_dpth_def bc_con_def)
  from deconv_04_back_substitution [OF r, of 0 0] r r' f show ?thesis
    by (simp add: Let_def)
qed

text \<open>
  The claim C1 as it is written, without the noise factor, fails: for the profile
  \<open>[1.9, 0, 0, 0, 0]\<close> and the noise factor 2 at layer V the corrected value of layer V
  is \<open>-1.2\<close>, not the observed value minus 0.6/1.9 times the corrected value of layer
  VI, which is \<open>-0.6\<close>.
\<close>

theorem deconv_04_ratio_only_counterexample:
  "deconv_04 1 [[1.9, 0, 0, 0, 0]] [[[1, 2, 1, 1, 1]]] =
     Inr [[[19 / 10, - (6 / 5), - (9 / 25), - (13 / 275), - (26 / 935)]]] \<and>
   [[[19 / 10, - (6 / 5), - (9 / 25), - (13 / 275), - (26 / 935) :: real]]] ! 0 ! 0 ! 1 \<noteq>
   [[1.9, 0, 0, 0, 0]] ! 0 ! 1
     - 0.6 / 1.9 * [[[19 / 10, - (6 / 5), - (9 / 25), - (13 / 275), - (26 / 935)]]] ! 0 ! 0 ! 0"
  by (simp add: deconv_04_eval)

text \<open>
  Claim C3 (as amended).  In model 4 the terms subtracted from a layer are multiplied by
  one random factor: in iteration \<open>it\<close> and for condition \<open>con\<close>, every term
  subtracted from layer \<open>k\<close> carries the factor \<open>aryRandn[it, con, k] * varNseRndSd +
  1\<close>, where \<open>aryRandn\<close> are the draws of the standard normal distribution (a noise
  array with a single condition is used for every condition).  The run is the
  deconvolution of the specification with factors that are the same for all terms of a
  layer.  The array returned has one entry per iteration of the noise array, each with
  one profile per condition, of the depth levels of \<open>aryEmp5\<close>.
\<close>

theorem deconv_04_random_factors:
  assumes r: "deconv_04 varNumCon aryEmp5 (aryNseRnd_of aryRandn varNseRndSd) = Inr aryNrnRnd"
    and it: "it < length aryRandn" and con: "con < length aryEmp5"
  shows "length aryNrnRnd = length (aryNseRnd_of aryRandn varNseRndSd) \<and>
         length aryNrnRnd = length aryRandn \<and>
         length (aryNrnRnd ! it) = length aryEmp5 \<and>
         length (aryNrnRnd ! it ! con) = num_dpth aryEmp5 \<and>
         take 5 (aryNrnRnd ! it ! con) =
           deconv_04_spec (aryEmp5 ! con)
             (\<lambda>k j. aryRandn ! it ! (if length (aryRandn ! it) = 1 then 0 else con) ! k
                        * varNseRndSd + 1.0)"
proof -
  define nse where "nse = aryNseRnd_of aryRandn varNseRndSd"
  define con' where "con' = (if length (aryRandn ! it) = 1 then 0 else con)"
  note r = r [folded nse_def]
  note R = deconv_04_Inr [OF r]
  have l: "length nse = length aryRandn" by (simp add: nse_def aryNseRnd_of_shape)
  have it': "it < length nse" using it l by simp
  have ln: "length (nse ! it) = length (aryRandn ! it)"
    using it by (simp add: nse_def aryNseRnd_of_shape)
  have c: "length (nse ! it) = length aryEmp5 \<or> length (nse ! it) = 1"
    using R(2) it' by (simp add: nse_cons_def list_all_length)
  have c': "con' < length (aryRandn ! it)"
    using c con ln by (auto simp: con'_def)
  have d: "5 \<le> length (aryRandn ! it ! con')"
  proof -
    have "5 \<le> length (nse ! it ! con')"
      using R(4) it' c' ln by (simp add: nse_dpths_def list_all_length)
    then show ?thesis using it c' by (simp add: nse_def aryNseRnd_of_shape)
  qed
  have f: "nse_at aryEmp5 nse it con k = aryRandn ! it ! con' ! k * varNseRndSd + 1.0"
    if "k < 5" for k
  proof -
    have "nse_at aryEmp5 nse it con k =
        nse ! it ! (if length (nse ! it) = 1 then 0 else con) ! k"
      using it' con c by (rule nse_at_bc)
    also have "\<dots> = nse ! it ! con' ! k" by (simp add: con'_def ln)
    also have "\<dots> = aryRandn ! it ! con' ! k * varNseRndSd + 1.0"
      unfolding nse_def using it c' that d by (intro aryNseRnd_of_nth) simp_all
    finally show ?thesis .
  qed
  note s = deconv_04_shape [OF r]
  have d5: "5 \<le> num_dpth aryEmp5" using R(3) con by (rule num_dpth_5)
  note v = deconv_04_layers_nth [OF R(2) R(3) it' con, folded R(1)]
  have t: "take 5 (aryNrnRnd ! it ! con) =
      deconv_04_spec (aryEmp5 ! con) (\<lambda>k j. nse_at aryEmp5 nse it con k)"
    unfolding v Let_def deconv_04_spec_def by (rule take_5_update [OF d5])
  have g: "deconv_04_spec (aryEmp5 ! con) (\<lambda>k j. nse_at aryEmp5 nse it con k) =
      deconv_04_spec (aryEmp5 ! con) (\<lambda>k j. aryRandn ! it ! con' ! k * varNseRndSd + 1.0)"
    unfolding deconv_04_spec_def Let_def by (simp only: f [of 1] f [of 2] f [of 3] f [of 4])
  have "length aryNrnRnd = length nse" using s by (simp add: shape2_def)
  moreover have "length (aryNrnRnd ! it) = length aryEmp5"
    using s it' by (rule shape2_nth)
  moreover have "length (aryNrnRnd ! it ! con) = num_dpth aryEmp5"
    unfolding v Let_def by simp
  ultimately show ?thesis
    unfolding t g con'_def nse_def [symmetric] using l by simp
qed

theorem deconv_04_random_factors_witness:
  "deconv_04 1 [[1.9, 2.1, 3, 4, 5]]
      (aryNseRnd_of [[[0, 2, 0, 0, 0]], [[12, 0, 0, 0, 0]]] 0.5) =
     Inr [[[19 / 10, 9 / 10, 111 / 50, 2209 / 1100, 4079 / 1870]],
          [[19 / 10, 3 / 2, 21 / 10, 431 / 220, 805 / 374]]] \<and>
   length [[[19 / 10, 9 / 10, 111 / 50, 2209 / 1100, 4079 / 1870]],
           [[19 / 10, 3 / 2, 21 / 10, 431 / 220, 805 / 374 :: real]]] = 2 \<and>
   deconv_04_spec [1.9, 2.1, 3, 4, 5] (\<lambda>k j. [0, 2, 0, 0, 0] ! k * 0.5 + 1.0) =
     [19 / 10, 9 / 10, 111 / 50, 2209 / 1100, 4079 / 1870]"
proof -
  have r: "deconv_04 1 [[1.9, 2.1, 3, 4, 5]]
      (aryNseRnd_of [[[0, 2, 0, 0, 0]], [[12, 0, 0, 0, 0]]] 0.5) =
     Inr [[[19 / 10, 9 / 10, 111 / 50, 2209 / 1100, 4079 / 1870]],
          [[19 / 10, 3 / 2, 21 / 10, 431 / 220, 805 / 374]]]"
    by (simp add: deconv_04_eval aryNseRnd_of_def)
  from deconv_04_random_factors [OF r, of 0 0] r show ?thesis
    by simp
qed

text \<open>
  The claim C3 as it is written, with a factor of its own for every subtraction term,
  fails: \<open>deconv_04\<close> cannot return every profile that such factors give.  For the
  profile \<open>[19, 0, 0, 0, 0]\<close>, the factor 5 for the term of layer V and the factors 1
  and 2 for the two terms of layer IV give the corrected values \<open>-30\<close> at layer V and
  \<open>-6\<close> at layer IV; with one factor for both terms of layer IV the two terms cancel,
  and \<open>deconv_04\<close> returns 0 at layer IV whatever the noise is.
\<close>

theorem deconv_04_per_term_counterexample:
  "\<not> (\<exists>aryNseRnd. deconv_04 1 [[19, 0, 0, 0, 0]] aryNseRnd =
        Inr [[deconv_04_spec [19, 0, 0, 0, 0]
                (\<lambda>k j. if k = 1 then 5 else if k = 2 \<and> j = 0 then 2 else 1)]])"
proof
  assume "\<exists>aryNseRnd. deconv_04 1 [[19, 0, 0, 0, 0]] aryNseRnd =
        Inr [[deconv_04_spec [19, 0, 0, 0, 0]
                (\<lambda>k j. if k = 1 then 5 else if k = 2 \<and> j = 0 then 2 else 1)]]"
  then obtain aryNseRnd where "deconv_04 1 [[19, 0, 0, 0, 0]] aryNseRnd =
        Inr [[deconv_04_spec [19, 0, 0, 0, 0]
                (\<lambda>k j. if k = 1 then 5 else if k = 2 \<and> j = 0 then 2 else 1)]]" ..
  then have r: "deconv_04 1 [[19, 0, 0, 0, 0]] aryNseRnd =
      Inr [[[19, - 30, - 6, 50 / 11, 500 / 187]]]"
    by (simp add: deconv_04_spec_def)
  have "length aryNseRnd = 1" using deconv_04_shape [OF r] by (simp add: shape2_def)
  then have it: "0 < length aryNseRnd" by simp
  have con: "0 < length [[19, 0, 0, 0, 0 :: real]]" by simp
  from deconv_04_eqs(3) [OF r it con] show False by simp
qed

text \<open>
  Claim C2.  For every input profile and every condition, the corrected value at the
  deepest layer (layer VI, depth index 0) is the observed value at that layer: in every
  iteration \<open>it\<close> and for every condition \<open>con\<close>, the entry \<open>[it, con, 0]\<close> of the
  array that \<open>deconv_04\<close> returns is the entry \<open>[con, 0]\<close> of \<open>aryEmp5\<close>, and nothing
  is subtracted from it.
\<close>

theorem deconv_04_layer_VI:
  assumes "deconv_04 varNumCon aryEmp5 aryNseRnd = Inr aryNrnRnd"
    and "it < length aryNseRnd" and "con < length aryEmp5"
  shows "aryNrnRnd ! it ! con ! 0 = aryEmp5 ! con ! 0"
  using assms by (rule deconv_04_eqs(1))

theorem deconv_04_layer_VI_witness:
  "deconv_04 1 [[1.9, 2.1, 3, 4, 5]] [[[1, 2, 1, 1, 1]], [[7, 1, 1, 1, 1]]] =
     Inr [[[19 / 10, 9 / 10, 111 / 50, 2209 / 1100, 4079 / 1870]],
          [[19 / 10, 3 / 2, 21 / 10, 431 / 220, 805 / 374]]] \<and>
   [[[19 / 10, 9 / 10, 111 / 50, 2209 / 1100, 4079 / 1870]],
     [[19 / 10, 3 / 2, 21 / 10, 431 / 220, 805 / 374 :: real]]] ! 1 ! 0 ! 0 =
   [[1.9, 2.1, 3, 4, 5]] ! 0 ! 0"
proof -
  have r: "deconv_04 1 [[1.9, 2.1, 3, 4, 5]] [[[1, 2, 1, 1, 1]], [[7, 1, 1, 1, 1]]] =
     Inr [[[19 / 10, 9 / 10, 111 / 50, 2209 / 1100, 4079 / 1870]],
          [[19 / 10, 3 / 2, 21 / 10, 431 / 220, 805 / 374]]]"
    by (simp add: deconv_04_eval)
  from deconv_04_layer_VI [OF r, of 1 0] r show ?thesis by simp
qed

text \<open>
  Claim C9.  The output of \<open>deconv_04\<close> at the deepest layer does not depend on the
  noise array and is the same in all iterations: two runs on the same profiles with
  noise arrays of the same number of iterations return the same slice \<open>[:, :, 0]\<close>,
  whatever the entries of the two noise arrays are, and within one run the rows of that
  slice are equal for any two iterations.
\<close>

theorem deconv_04_layer_VI_noise:
  assumes r: "deconv_04 varNumCon aryEmp5 aryNseRnd = Inr aryNrnRnd"
    and r': "deconv_04 varNumCon aryEmp5 aryNseRnd' = Inr aryNrnRnd'"
    and len: "length aryNseRnd' = length aryNseRnd"
  shows "get_dpth aryNrnRnd' 0 = get_dpth aryNrnRnd 0 \<and>
    (\<forall>it < length aryNseRnd. \<forall>it' < length aryNseRnd.
       get_dpth aryNrnRnd 0 ! it = get_dpth aryNrnRnd 0 ! it')"
proof -
  note R = deconv_04_Inr [OF r] and R' = deconv_04_Inr [OF r']
  have a: "get_dpth aryNrnRnd 0 = emp_dpth (length aryNseRnd) aryEmp5 0"
    unfolding R(1) using R(2,3) by (rule get_dpth_deconv_04_layers_0)
  have b: "get_dpth aryNrnRnd' 0 = emp_dpth (length aryNseRnd') aryEmp5 0"
    unfolding R'(1) using R'(2,3) by (rule get_dpth_deconv_04_layers_0)
  show ?thesis unfolding a b len by (simp add: emp_dpth_def)
qed

theorem deconv_04_layer_VI_noise_witness:
  "get_dpth [[[19 / 10, 3 / 2, 21 / 10, 431 / 220, 805 / 374]],
             [[19 / 10, 3 / 2, 21 / 10, 431 / 220, 805 / 374]]] 0 =
   get_dpth [[[19 / 10, 9 / 10, 36 / 25, 258 / 275, 5449 / 4675]],
             [[19 / 10, 21 / 10, 99 / 50, 4, 2147 / 1700]]] 0 \<and>
   get_dpth [[[19 / 10, 9 / 10, 36 / 25, 258 / 275, 5449 / 4675]],
             [[19 / 10, 21 / 10, 99 / 50, 4, 2147 / 1700]]] 0 ! 0 =
   get_dpth [[[19 / 10, 9 / 10, 36 / 25, 258 / 275, 5449 / 4675]],
             [[19 / 10, 21 / 10, 99 / 50, 4, 2147 / 1700]]] 0 ! 1"
proof -
  have r: "deconv_04 1 [[1.9, 2.1, 3, 4, 5]] [[[3, 2, 2, 2, 2]], [[7, 0, 1, 0, 1]]] =
     Inr [[[19 / 10, 9 / 10, 36 / 25, 258 / 275, 5449 / 4675]],
          [[19 / 10, 21 / 10, 99 / 50, 4, 2147 / 1700]]]"
    by (simp add: deconv_04_eval)
  have r': "deconv_04 1 [[1.9, 2.1, 3, 4, 5]] [[[1, 1, 1, 1, 1]], [[7, 1, 1, 1, 1]]] =
     Inr [[[19 / 10, 3 / 2, 21 / 10, 431 / 220, 805 / 374]],
          [[19 / 10, 3 / 2, 21 / 10, 431 / 220, 805 / 374]]]"
    by (simp add: deconv_04_eval)
  from deconv_04_layer_VI_noise [OF r r'] show ?thesis by simp
qed

section \<open>Claims on the resampling\<close>

text \<open>
  Claim C7.  The forward resampling (from the equi-volume grid to the five layer
  positions) and the backward resampling (from the five layer positions back to the
  equi-volume grid) call the interpolation with the same method, \<open>cubic\<close>, and the
  target grid of the backward step is the source grid of the forward step: both are the
  grid of \<open>varNumDpth\<close> evenly spaced positions from the smallest to the largest layer
  position.
\<close>

theorem resampling_same_grid:
  assumes m: "vecPosMdl strRoi = Inr m"
  shows "(let grid = linspace (Min (set m)) (Max (set m)) varNumDpth in
     vecPosEmp strRoi varNumDpth = Inr grid \<and>
     vecIntpEqui strRoi varNumDpth = Inr grid \<and>
     intp_down griddata strRoi varNumDpth aryEmpSub =
       map_err (\<lambda>prf. griddata grid prf m ''cubic'') aryEmpSub \<and>
     intp_up griddata strRoi varNumDpth aryDecon5Sub =
       map_err (\<lambda>prf. griddata m prf grid ''cubic'') aryDecon5Sub \<and>
     length grid = varNumDpth \<and>
     (2 \<le> varNumDpth \<longrightarrow>
        grid ! 0 = Min (set m) \<and> grid ! (varNumDpth - 1) = Max (set m) \<and>
        (\<forall>i. Suc i < varNumDpth \<longrightarrow>
           grid ! Suc i - grid ! i = (Max (set m) - Min (set m)) / real (varNumDpth - 1))))"
  unfolding Let_def intp_down_def intp_up_def
    vecPosEmp_linspace [OF m] vecIntpEqui_linspace [OF m] m
  using linspace_ends [of varNumDpth "Min (set m)" "Max (set m)"]
  by (simp add: linspace_length linspace_step)

theorem resampling_same_grid_witness:
  "vecPosEmp ''v1'' 5 = Inr [1 / 10, 5 / 16, 21 / 40, 59 / 80, 19 / 20] \<and>
   vecIntpEqui ''v1'' 5 = Inr [1 / 10, 5 / 16, 21 / 40, 59 / 80, 19 / 20] \<and>
   intp_down (\<lambda>p v x s. if s = ''cubic'' then Inr (p @ x) else Inl ValueError) ''v1'' 5 [[]] =
     Inr [[1 / 10, 5 / 16, 21 / 40, 59 / 80, 19 / 20, 0.1, 0.25, 0.5, 0.8, 0.95]] \<and>
   intp_up (\<lambda>p v x s. if s = ''cubic'' then Inr (p @ x) else Inl ValueError) ''v1'' 5 [[]] =
     Inr [[0.1, 0.25, 0.5, 0.8, 0.95, 1 / 10, 5 / 16, 21 / 40, 59 / 80, 19 / 20]]"
proof -
  have m: "vecPosMdl ''v1'' = Inr [0.1, 0.25, 0.5, 0.8, 0.95]"
    by (simp add: vecPosMdl_def)
  have g: "linspace (Min (set [0.1, 0.25, 0.5, 0.8, 0.95])) (Max (set [0.1, 0.25, 0.5, 0.8, 0.95])) 5
      = [1 / 10, 5 / 16, 21 / 40, 59 / 80, 19 / 20]"
    by (simp add: linspace_def upt_rec)
  from resampling_same_grid [OF m, of 5
      "\<lambda>p v x s. if s = ''cubic'' then Inr (p @ x) else Inl ValueError" "[[]]" "[[]]"]
  show ?thesis unfolding Let_def g by simp
qed

text \<open>
  Claim C8.  The layer positions used for the resampling are \<open>[0.10, 0.25, 0.50, 0.80,
  0.95]\<close> for V1, and for the extrastriate region (\<open>v2\<close>) the absolute depths \<open>[160,
  590, 1110, 1400, 1620]\<close> divided by the thickness 1700.  Which of the two is used
  depends on the region only: whenever positions are defined they are one of the two
  vectors, selected by \<open>strRoi\<close>, and they are the target positions of the
  downsampling whatever the data, the interpolation function and the number of depth
  levels are.
\<close>

theorem vecPosMdl_regions:
  "vecPosMdl ''v1'' = Inr [0.10, 0.25, 0.50, 0.80, 0.95] \<and>
   vecPosMdl ''v2'' =
     Inr [160 / 1700, 590 / 1700, 1110 / 1700, 1400 / 1700, 1620 / 1700] \<and>
   (\<forall>strRoi m griddata varNumDpth aryEmpSub.
      vecPosMdl strRoi = Inr m \<longrightarrow>
        ((strRoi = ''v1'' \<and> m = [0.10, 0.25, 0.50, 0.80, 0.95]) \<or>
         (strRoi = ''v2'' \<and>
          m = [160 / 1700, 590 / 1700, 1110 / 1700, 1400 / 1700, 1620 / 1700])) \<and>
        intp_down griddata strRoi varNumDpth aryEmpSub =
          map_err (\<lambda>prf. griddata (linspace (Min (set m)) (Max (set m)) varNumDpth) prf m
                             ''cubic'') aryEmpSub)"
proof (intro conjI allI impI)
  show "vecPosMdl ''v1'' = Inr [0.10, 0.25, 0.50, 0.80, 0.95]"
    by (simp add: vecPosMdl_def)
  show "vecPosMdl ''v2'' =
     Inr [160 / 1700, 590 / 1700, 1110 / 1700, 1400 / 1700, 1620 / 1700]"
    by (simp add: vecPosMdl_def)
next
  fix strRoi m and griddata :: griddata and varNumDpth aryEmpSub
  assume m: "vecPosMdl strRoi = Inr m"
  from vecPosMdl_cases [OF m]
  show "(strRoi = ''v1'' \<and> m = [0.10, 0.25, 0.50, 0.80, 0.95]) \<or>
         (strRoi = ''v2'' \<and>
          m = [160 / 1700, 590 / 1700, 1110 / 1700, 1400 / 1700, 1620 / 1700])"
    by simp
  show "intp_down griddata strRoi varNumDpth aryEmpSub =
          map_err (\<lambda>prf. griddata (linspace (Min (set m)) (Max (set m)) varNumDpth) prf m
                             ''cubic'') aryEmpSub"
    unfolding intp_down_def vecPosEmp_linspace [OF m] m by simp
qed

theorem vecPosMdl_regions_witness:
  "vecPosMdl ''v2'' = Inr [8 / 85, 59 / 170, 111 / 170, 14 / 17, 81 / 85] \<and>
   intp_down (\<lambda>p v x s. Inr x) ''v2'' 3 [[1, 2, 3]] =
     Inr [[8 / 85, 59 / 170, 111 / 170, 14 / 17, 81 / 85]]"
proof -
  have m: "vecPosMdl ''v2'' = Inr [8 / 85, 59 / 170, 111 / 170, 14 / 17, 81 / 85]"
    by (simp add: vecPosMdl_def)
  from vecPosMdl_regions m show ?thesis by simp
qed

section \<open>Claim on the permutation test\<close>

text \<open>
  Claim C6.  The two-sided p-value of the permutation test is one plus the number of
  permutation statistics whose absolute value is greater than or equal to the absolute
  empirical statistic, divided by one plus the number of permutations; it is never zero
  (and at most one).
\<close>

theorem p_value_smoothed:
  "p_value varEmpDiff vecPermDiff =
     (1 + real (card {i. i < length vecPermDiff \<and> \<bar>varEmpDiff\<bar> \<le> \<bar>vecPermDiff ! i\<bar>}))
       / (1 + real (length vecPermDiff)) \<and>
   0 < p_value varEmpDiff vecPermDiff \<and> p_value varEmpDiff vecPermDiff \<le> 1"
proof -
  have "length (filter (\<lambda>d. \<bar>varEmpDiff\<bar> \<le> \<bar>d\<bar>) vecPermDiff) =
        card {i. i < length vecPermDiff \<and> \<bar>varEmpDiff\<bar> \<le> \<bar>vecPermDiff ! i\<bar>}"
    by (rule length_filter_conv_card)
  moreover have "length (filter (\<lambda>d. \<bar>varEmpDiff\<bar> \<le> \<bar>d\<bar>) vecPermDiff) \<le> length vecPermDiff"
    by (rule length_filter_le)
  ultimately show ?thesis
    unfolding p_value_def by (simp add: field_simps add_pos_nonneg)
qed

theorem p_value_smoothed_witness:
  "p_value 2 [1, -3, 2, 0] = 3 / 5 \<and> p_value 9 [1, -3, 2, 0] = 1 / 5"
proof -
  have "p_value 2 [1, -3, 2, 0] = 3 / 5" "p_value 9 [1, -3, 2, 0] = 1 / 5"
    by (simp_all add: p_value_def)
  with p_value_smoothed [of 2 "[1, -3, 2, 0]"] show ?thesis by simp
qed


section \<open>Claim on the selection of vertices\<close>

text \<open>
  Claim C10 (as amended).  Let \<open>varNumCon\<close> be the number of arrays in
  \<open>lstDpthData01\<close>, and let \<open>funcSlctVrtcs\<close> return.  Then each of the criteria 2, 3
  and 4 that is applied combines its vector with the current inclusion vector by a
  logical AND; the inclusion vector keeps its length, a vertex that a criterion includes
  was included before it, and the number of included vertices does not increase from one
  criterion to the next.  The number returned is the number of true entries of the
  inclusion vector returned, and every array of the list returned has that many rows.
\<close>

theorem funcSlctVrtcs_inclusion:
  assumes r: "funcSlctVrtcs varNumCon lstDpthData01 lgcSlct01 aryRoiVrtx lgcSlct02 arySlct02
     varThrSlct02 lgcSlct03 arySlct03 varThrSlct03 lgcSlct04 arySlct04 varThrSlct04 idxPrc =
     Inr (lst, varNumInc, vecInc)"
    and n: "varNumCon = int (length lstDpthData01)"
  shows "\<exists>s1 s2 s3.
     slct01 lgcSlct01 aryRoiVrtx (length (hd lstDpthData01))
        (replicate (length (hd lstDpthData01)) True, length (hd lstDpthData01)) = Inr s1 \<and>
     slct02 lgcSlct02 arySlct02 varThrSlct02 s1 = Inr s2 \<and>
     slct03 lgcSlct03 arySlct03 varThrSlct03 s2 = Inr s3 \<and>
     slct04 lgcSlct04 arySlct04 varThrSlct04 s3 = Inr (vecInc, varNumInc) \<and>
     (lgcSlct02 \<longrightarrow>
        logical_and (fst s1) (vecSlct02 arySlct02 varThrSlct02) = Inr (fst s2)) \<and>
     (lgcSlct03 \<longrightarrow>
        (\<exists>v. vecSlct03 arySlct03 varThrSlct03 = Inr v \<and>
             logical_and (fst s2) v = Inr (fst s3))) \<and>
     (lgcSlct04 \<longrightarrow>
        logical_and (fst s3) (vecSlct04 arySlct04 varThrSlct04) = Inr vecInc) \<and>
     length (fst s1) = length vecInc \<and> length (fst s2) = length vecInc \<and>
     length (fst s3) = length vecInc \<and>
     (\<forall>i < length vecInc.
        (fst s2 ! i \<longrightarrow> fst s1 ! i) \<and> (fst s3 ! i \<longrightarrow> fst s2 ! i) \<and>
        (vecInc ! i \<longrightarrow> fst s3 ! i)) \<and>
     snd s2 \<le> snd s1 \<and> snd s3 \<le> snd s2 \<and> varNumInc \<le> snd s3 \<and>
     varNumInc = np_sum_bool vecInc \<and>
     length lst = length lstDpthData01 \<and>
     (\<forall>a \<in> set lst. length a = varNumInc)"
proof -
  from r obtain ary0 rest s1 s2 s3 where l: "lstDpthData01 = ary0 # rest"
    and 1: "slct01 lgcSlct01 aryRoiVrtx (length ary0)
           (replicate (length ary0) True, np_sum_bool (replicate (length ary0) True)) = Inr s1"
    and 2: "slct02 lgcSlct02 arySlct02 varThrSlct02 s1 = Inr s2"
    and 3: "slct03 lgcSlct03 arySlct03 varThrSlct03 s2 = Inr s3"
    and 4: "slct04 lgcSlct04 arySlct04 varThrSlct04 s3 = Inr (vecInc, varNumInc)"
    and 5: "slct_loop vecInc [0..<nat varNumCon] lstDpthData01 = Inr lst"
    by (rule funcSlctVrtcs_stages)
  have ones: "np_sum_bool (replicate (length ary0) True) = length ary0"
    by (simp add: np_sum_bool_def)
  have nv: "nat varNumCon = length lstDpthData01" using n by simp
  note L = slct_loop_rows [OF 5 distinct_upt, unfolded nv]
  have len: "length lst = length lstDpthData01" using L by simp
  have rows: "length (lst ! j) = np_sum_bool vecInc" if "j < length lst" for j
  proof -
    from that len have "j \<in> set [0..<length lstDpthData01]" by simp
    with L show ?thesis by blast
  qed
  have "0 \<in> set [0..<length lstDpthData01]" using l by simp
  with L have "length vecInc = length (lstDpthData01 ! 0)" by blast
  then have lv: "length vecInc = length ary0" using l by simp
  have l1: "length (fst s1) = length ary0" using 1 by (rule slct01_length)
  have c1: "snd s1 = np_sum_bool (fst s1)" using 1 by (rule slct01_sum)
  note a2 = slct02_step [OF 2] and a3 = slct03_step [OF 3] and a4 = slct04_step [OF 4]
  have "length (fst (vecInc, varNumInc)) = length (fst s1)" using lv l1 by simp
  note ls = and_steps_length [OF a2 a3 a4 this]
  have l2: "length (fst s2) = length (fst s1)" and l3: "length (fst s3) = length (fst s2)"
    and l4: "length (fst (vecInc, varNumInc)) = length (fst s3)"
    using ls lv l1 by simp_all
  have c2: "snd s2 = np_sum_bool (fst s2)" using a2 c1 by (rule and_step_sum)
  have c3: "snd s3 = np_sum_bool (fst s3)" using a3 c2 by (rule and_step_sum)
  have c4: "snd (vecInc, varNumInc) = np_sum_bool (fst (vecInc, varNumInc))"
    using a4 c3 by (rule and_step_sum)
  note m2 = and_step_mono [OF a2 c1 l2] and m3 = and_step_mono [OF a3 c2 l3]
    and m4 = and_step_mono [OF a4 c3 l4]
  have cnt: "varNumInc = np_sum_bool vecInc" using c4 by simp
  have A2: "lgcSlct02 \<Longrightarrow>
        logical_and (fst s1) (vecSlct02 arySlct02 varThrSlct02) = Inr (fst s2)"
    using 2 by (auto simp: slct02_def split: sum.splits)
  have A3: "lgcSlct03 \<Longrightarrow> \<exists>v. vecSlct03 arySlct03 varThrSlct03 = Inr v \<and>
             logical_and (fst s2) v = Inr (fst s3)"
    using 3 by (auto simp: slct03_def split: sum.splits)
  have A4: "lgcSlct04 \<Longrightarrow>
        logical_and (fst s3) (vecSlct04 arySlct04 varThrSlct04) = Inr vecInc"
    using 4 by (auto simp: slct04_def split: sum.splits)
  have all: "\<forall>a \<in> set lst. length a = varNumInc"
    using rows cnt by (auto simp: in_set_conv_nth)
  have imp: "\<forall>i < length vecInc.
        (fst s2 ! i \<longrightarrow> fst s1 ! i) \<and> (fst s3 ! i \<longrightarrow> fst s2 ! i) \<and>
        (vecInc ! i \<longrightarrow> fst s3 ! i)"
    using m2(2) m3(2) m4(2) l2 l3 l4 by simp
  have S1: "slct01 lgcSlct01 aryRoiVrtx (length (hd lstDpthData01))
        (replicate (length (hd lstDpthData01)) True, length (hd lstDpthData01)) = Inr s1"
    using 1 unfolding ones l by simp
  show ?thesis
    apply (rule exI [of _ s1], rule exI [of _ s2], rule exI [of _ s3])
    using S1 2 3 4 A2 A3 A4 l1 l2 l3 l4 lv imp m2(1) m3(1) m4(1) cnt len all
    by simp
qed


theorem funcSlctVrtcs_inclusion_witness:
  "funcSlctVrtcs 2 [[[1, 2], [3, 4], [5, 6]], [[7], [8], [9]]]
      True [[0, 5 / 2], [0, 0], [0, - 1]] True [[1, 2], [3, 4], [5, 6]] 2 False [] 0
      True [[1], [1], [1]] 5 0 =
     Inr ([[[5, 6]], [[9]]], 1, [False, False, True]) \<and>
   (2::int) = int (length [[[1, 2], [3, 4], [5, 6]], [[7], [8], [9 :: real]]]) \<and>
   (1::nat) = np_sum_bool [False, False, True] \<and>
   length [[[5, 6]], [[9 :: real]]] = length [[[1, 2], [3, 4], [5, 6]], [[7], [8], [9 :: real]]]"
proof -
  have r: "funcSlctVrtcs 2 [[[1, 2], [3, 4], [5, 6]], [[7], [8], [9]]]
      True [[0, 5 / 2], [0, 0], [0, - 1]] True [[1, 2], [3, 4], [5, 6]] 2 False [] 0
      True [[1], [1], [1]] 5 0 =
     Inr ([[[5, 6]], [[9]]], 1, [False, False, True])"
    unfolding funcSlctVrtcs_def by (simp add: slct01_example slct02_example slct03_off slct04_example upt_2 bool_index_def)
  have n: "(2::int) = int (length [[[1, 2], [3, 4], [5, 6]], [[7], [8], [9 :: real]]])"
    by simp
  from funcSlctVrtcs_inclusion [OF r n]
  have "(1::nat) = np_sum_bool [False, False, True] \<and>
    length [[[5, 6]], [[9 :: real]]] = length [[[1, 2], [3, 4], [5, 6]], [[7], [8], [9 :: real]]]"
    by (elim exE conjE) (intro conjI, assumption+)
  with r n show ?thesis by (intro conjI) (assumption | erule conjunct1 | erule conjunct2)+
qed


text \<open>
  The claim C10 as it is written, for any \<open>varNumCon\<close>, fails: the loop applies the
  inclusion vector to the first \<open>varNumCon\<close> arrays only.  With \<open>varNumCon = 1\<close> and two
  arrays the second array is returned with its three rows, while one vertex is included.
\<close>

theorem funcSlctVrtcs_varNumCon_counterexample:
  "funcSlctVrtcs 1 [[[1, 2], [3, 4], [5, 6]], [[7], [8], [9]]]
      True [[0, 5 / 2], [0, 0], [0, - 1]] True [[1, 2], [3, 4], [5, 6]] 2 False [] 0
      True [[1], [1], [1]] 5 0 =
     Inr ([[[5, 6]], [[7], [8], [9]]], 1, [False, False, True]) \<and>
   length ([[[5, 6]], [[7], [8], [9 :: real]]] ! 1) \<noteq> 1"
  unfolding funcSlctVrtcs_def
  by (simp add: slct01_example slct02_example slct03_off slct04_example bool_index_def)

section \<open>Claims on the bootstrap\<close>

text \<open>
  Claim C4.  For an array of \<open>S\<close> subjects, a positive number of iterations, percentiles
  between 0 and 100 and any array of indices that \<open>randint\<close> can draw (one row per
  iteration, one index per subject, indices may repeat: subjects are drawn with
  replacement), \<open>boot_plot\<close> computes, for every condition and depth level, the median
  of the resampled subjects in every iteration, the lower and the upper percentile of
  these medians across the iterations, and the median over the subjects of the array as
  it is, and hands the three to the plot.  The three are numbers, none of them is \<open>nan\<close>.
\<close>

theorem boot_plot_bootstrap:
  assumes sh: "shape3 S C D aryDpth" and S: "0 < S" and I: "0 < varNumIt"
    and q: "0 \<le> varConLw" "varConLw \<le> 100" "0 \<le> varConUp" "varConUp \<le> 100"
    and rnd: "randint S (nat varNumIt) S aryRnd"
  shows "\<exists>res.
     boot_plot load_npy aryRnd lstCon (NdArray (S, C, D) aryDpth) strPath varNumIt varConLw
       varConUp = Inr res \<and>
     length (aryEmpMed res) = C \<and> length (aryCnfLw res) = C \<and> length (aryCnfUp res) = C \<and>
     (\<forall>c<C. \<forall>d<D.
        (let boo = (\<lambda>it. map (\<lambda>s. aryDpth ! (aryRnd ! it ! s) ! c ! d) [0..<S]);
             med = map (\<lambda>it. np_median (boo it)) [0..<nat varNumIt]
         in aryEmpMed res ! c ! d = np_median (map (\<lambda>s. aryDpth ! s ! c ! d) [0..<S]) \<and>
            aryCnfLw res ! c ! d = np_percentile med varConLw \<and>
            aryCnfUp res ! c ! d = np_percentile med varConUp \<and>
            aryEmpMed res ! c ! d \<noteq> None \<and> aryCnfLw res ! c ! d \<noteq> None \<and>
            aryCnfUp res ! c ! d \<noteq> None))"
proof -
  have len: "length aryDpth = S" using sh by (simp add: shape3_def)
  define aryBoo where
    "aryBoo = map (\<lambda>it. map (\<lambda>i. aryDpth ! i) (aryRnd ! it)) [0..<nat varNumIt]"
  define aryBooMed where "aryBooMed = map (reduce_ax0 np_median C D) aryBoo"
  define res where
    "res = \<lparr>aryEmpMed = reduce_ax0 np_median C D aryDpth,
            aryCnfLw = reduce_ax0 (\<lambda>v. np_percentile v varConLw) C D aryBooMed,
            aryCnfUp = reduce_ax0 (\<lambda>v. np_percentile v varConUp) C D aryBooMed\<rparr>"
  have ne: "aryBooMed \<noteq> []" using I by (simp add: aryBooMed_def aryBoo_def)
  have p: "percentile_ax0 (varConLw, varConUp) C D aryBooMed =
      Inr [reduce_ax0 (\<lambda>v. np_percentile v varConLw) C D aryBooMed,
           reduce_ax0 (\<lambda>v. np_percentile v varConUp) C D aryBooMed]"
    using q ne by (simp add: percentile_ax0_def)
  have I0: "0 \<le> varNumIt" using I by simp
  have r: "boot_plot load_npy aryRnd lstCon (NdArray (S, C, D) aryDpth) strPath varNumIt
      varConLw varConUp = Inr res"
    unfolding boot_plot_NdArray [OF len I0 rnd] Let_def
      aryBoo_def [symmetric] aryBooMed_def [symmetric] p res_def
    by simp
  have col: "map (\<lambda>x. x ! c ! dd) (aryBoo ! it) =
      map (\<lambda>s. aryDpth ! (aryRnd ! it ! s) ! c ! dd) [0..<S]"
    if "it < nat varNumIt" for it c dd
  proof -
    have "it < length aryRnd" using rnd that by (simp add: randint_def shape2_def)
    then have l: "length (aryRnd ! it) = S"
      using rnd by (simp add: randint_def shape2_def list_all_length)
    have "map (\<lambda>x. x ! c ! dd) (aryBoo ! it) = map (\<lambda>i. aryDpth ! i ! c ! dd) (aryRnd ! it)"
      using that by (simp add: aryBoo_def)
    also have "\<dots> = map (\<lambda>s. aryDpth ! (aryRnd ! it ! s) ! c ! dd) [0..<length (aryRnd ! it)]"
      by (rule map_nth_upt [symmetric])
    finally show ?thesis unfolding l .
  qed
  have med: "map (\<lambda>x. x ! c ! dd) aryBooMed =
      map (\<lambda>it. np_median (map (\<lambda>s. aryDpth ! (aryRnd ! it ! s) ! c ! dd) [0..<S]))
        [0..<nat varNumIt]"
    if "c < C" and "dd < D" for c dd
  proof (rule nth_equalityI)
    show "length (map (\<lambda>x. x ! c ! dd) aryBooMed) =
      length (map (\<lambda>it. np_median (map (\<lambda>s. aryDpth ! (aryRnd ! it ! s) ! c ! dd) [0..<S]))
        [0..<nat varNumIt])"
      by (simp add: aryBooMed_def aryBoo_def)
  next
    fix it assume "it < length (map (\<lambda>x. x ! c ! dd) aryBooMed)"
    then have it: "it < nat varNumIt" by (simp add: aryBooMed_def aryBoo_def)
    then have "it < length aryBoo" by (simp add: aryBoo_def)
    then have "map (\<lambda>x. x ! c ! dd) aryBooMed ! it =
        np_median (map (\<lambda>x. x ! c ! dd) (aryBoo ! it))"
      using that by (simp add: aryBooMed_def reduce_ax0_nth)
    then show "map (\<lambda>x. x ! c ! dd) aryBooMed ! it =
      map (\<lambda>it. np_median (map (\<lambda>s. aryDpth ! (aryRnd ! it ! s) ! c ! dd) [0..<S]))
        [0..<nat varNumIt] ! it"
      using it by (simp add: col)
  qed
  have emp: "map (\<lambda>x. x ! c ! dd) aryDpth = map (\<lambda>s. aryDpth ! s ! c ! dd) [0..<S]" for c dd
    unfolding len [symmetric] by (rule map_nth_upt [symmetric])
  have num: "np_median (map f [0..<S]) \<noteq> None" for f :: "nat \<Rightarrow> real"
    using S by (intro np_median_Some) simp
  have nums: "None \<notin> set (map (\<lambda>it. np_median (map (f it) [0..<S])) [0..<n])"
    for f :: "nat \<Rightarrow> nat \<Rightarrow> real" and n
  proof
    assume "None \<in> set (map (\<lambda>it. np_median (map (f it) [0..<S])) [0..<n])"
    then obtain it where "None = np_median (map (f it) [0..<S])" by auto
    then have "np_median (map (f it) [0..<S]) = None" by simp
    with num [of "f it"] show False by simp
  qed
  have pt: "aryEmpMed res ! c ! dd = np_median (map (\<lambda>s. aryDpth ! s ! c ! dd) [0..<S]) \<and>
      aryCnfLw res ! c ! dd = np_percentile
        (map (\<lambda>it. np_median (map (\<lambda>s. aryDpth ! (aryRnd ! it ! s) ! c ! dd) [0..<S]))
           [0..<nat varNumIt]) varConLw \<and>
      aryCnfUp res ! c ! dd = np_percentile
        (map (\<lambda>it. np_median (map (\<lambda>s. aryDpth ! (aryRnd ! it ! s) ! c ! dd) [0..<S]))
           [0..<nat varNumIt]) varConUp \<and>
      aryEmpMed res ! c ! dd \<noteq> None \<and> aryCnfLw res ! c ! dd \<noteq> None \<and>
      aryCnfUp res ! c ! dd \<noteq> None"
    if "c < C" and "dd < D" for c dd
  proof -
    have e: "aryEmpMed res ! c ! dd = np_median (map (\<lambda>s. aryDpth ! s ! c ! dd) [0..<S])"
      and l: "aryCnfLw res ! c ! dd = np_percentile
        (map (\<lambda>it. np_median (map (\<lambda>s. aryDpth ! (aryRnd ! it ! s) ! c ! dd) [0..<S]))
           [0..<nat varNumIt]) varConLw"
      and u: "aryCnfUp res ! c ! dd = np_percentile
        (map (\<lambda>it. np_median (map (\<lambda>s. aryDpth ! (aryRnd ! it ! s) ! c ! dd) [0..<S]))
           [0..<nat varNumIt]) varConUp"
      using that by (simp_all add: res_def reduce_ax0_nth med emp)
    have "aryEmpMed res ! c ! dd \<noteq> None" unfolding e by (rule num)
    moreover have "aryCnfLw res ! c ! dd \<noteq> None"
      unfolding l by (rule np_percentile_Some) (rule nums)
    moreover have "aryCnfUp res ! c ! dd \<noteq> None"
      unfolding u by (rule np_percentile_Some) (rule nums)
    ultimately show ?thesis using e l u by simp
  qed
  have "length (aryEmpMed res) = C \<and> length (aryCnfLw res) = C \<and> length (aryCnfUp res) = C"
    by (simp add: res_def reduce_ax0_length)
  with r pt show ?thesis unfolding Let_def by blast
qed

theorem boot_plot_bootstrap_witness:
  "\<exists>res. boot_plot (\<lambda>p l. Inl NameError) [[0, 0, 2], [1, 2, 0]] []
            (NdArray (3, 1, 2) [[[1, 10]], [[2, 30]], [[6, 20]]]) [] 2 25 100 = Inr res \<and>
         aryEmpMed res ! 0 ! 0 = Some 2 \<and> aryCnfLw res ! 0 ! 0 = Some (5 / 4) \<and>
         aryCnfUp res ! 0 ! 0 = Some 2"
proof -
  have sh: "shape3 3 1 2 [[[1, 10]], [[2, 30]], [[6, 20]]]"
    by (simp add: shape3_def shape2_def)
  have rnd: "randint 3 (nat 2) 3 [[0, 0, 2], [1, 2, 0]]"
    by (simp add: randint_def shape2_def)
  have u: "[0..<3] = [0, 1, 2]" "[0..<nat 2] = [0, 1]"
    by (simp_all add: upt_rec)
  from boot_plot_bootstrap [OF sh _ _ _ _ _ _ rnd, of 25 100 "\<lambda>p l. Inl NameError" "[]" "[]"]
  obtain res where r: "boot_plot (\<lambda>p l. Inl NameError) [[0, 0, 2], [1, 2, 0]] []
            (NdArray (3, 1, 2) [[[1, 10]], [[2, 30]], [[6, 20]]]) [] 2 25 100 = Inr res"
    and pt: "\<forall>c<1. \<forall>d<2.
        (let boo = (\<lambda>it. map (\<lambda>s. [[[1, 10]], [[2, 30]], [[6, 20]]] !
                       ([[0, 0, 2], [1, 2, 0]] ! it ! s) ! c ! d) [0..<3]);
             med = map (\<lambda>it. np_median (boo it)) [0..<nat 2]
         in aryEmpMed res ! c ! d =
              np_median (map (\<lambda>s. [[[1, 10]], [[2, 30]], [[6, 20]]] ! s ! c ! d) [0..<3]) \<and>
            aryCnfLw res ! c ! d = np_percentile med 25 \<and>
            aryCnfUp res ! c ! d = np_percentile med 100 \<and>
            aryEmpMed res ! c ! d \<noteq> None \<and> aryCnfLw res ! c ! d \<noteq> None \<and>
            aryCnfUp res ! c ! d \<noteq> None)"
    by auto
  have "(0 :: nat) < 1" and "(0 :: nat) < 2" by simp_all
  with pt have "(let boo = (\<lambda>it. map (\<lambda>s. [[[1, 10]], [[2, 30]], [[6, 20]]] !
                       ([[0, 0, 2], [1, 2, 0]] ! it ! s) ! 0 ! 0) [0..<3]);
             med = map (\<lambda>it. np_median (boo it)) [0..<nat 2]
         in aryEmpMed res ! 0 ! 0 =
              np_median (map (\<lambda>s. [[[1, 10]], [[2, 30]], [[6, 20]]] ! s ! 0 ! 0) [0..<3]) \<and>
            aryCnfLw res ! 0 ! 0 = np_percentile med 25 \<and>
            aryCnfUp res ! 0 ! 0 = np_percentile med 100 \<and>
            aryEmpMed res ! 0 ! 0 \<noteq> None \<and> aryCnfLw res ! 0 ! 0 \<noteq> None \<and>
            aryCnfUp res ! 0 ! 0 \<noteq> None)"
    by blast
  then have "aryEmpMed res ! 0 ! 0 = Some 2 \<and> aryCnfLw res ! 0 ! 0 = Some (5 / 4) \<and>
         aryCnfUp res ! 0 ! 0 = Some 2"
    unfolding Let_def u by (simp add: np_median_examples np_percentile_examples)
  with r show ?thesis by blast
qed


text \<open>
  Claim C5 (as amended).  \<open>boot_plot\<close> has no checks of its parameters of its own.  A
  percentile bound outside of \<open>[0, 100]\<close> ends the run with the ValueError of
  \<open>np.percentile\<close>, a negative number of iterations with the ValueError of
  \<open>np.random.randint\<close>.  With no iteration the run does not end with a ValueError: it
  goes on to the percentiles across an iteration axis without entries, where it ends
  with an IndexError.  With percentiles in \<open>[0, 100]\<close> and at least one iteration the
  run ends without an error, for an array of any number of subjects \<open>S\<close>, none
  included.
\<close>

theorem boot_plot_parameters:
  "(varNumIt < 0 \<longrightarrow>
      boot_plot load_npy aryRnd lstCon (NdArray (S, C, D) aryDpth) strPath varNumIt varConLw
        varConUp = Inl ValueError) \<and>
   (length aryDpth = S \<and> randint S (nat varNumIt) S aryRnd \<longrightarrow>
     (varConLw < 0 \<or> 100 < varConLw \<or> varConUp < 0 \<or> 100 < varConUp \<longrightarrow>
        boot_plot load_npy aryRnd lstCon (NdArray (S, C, D) aryDpth) strPath varNumIt
          varConLw varConUp = Inl ValueError) \<and>
     (0 \<le> varConLw \<and> varConLw \<le> 100 \<and> 0 \<le> varConUp \<and> varConUp \<le> 100 \<longrightarrow>
        (varNumIt = 0 \<longrightarrow>
           boot_plot load_npy aryRnd lstCon (NdArray (S, C, D) aryDpth) strPath varNumIt
             varConLw varConUp = Inl IndexError) \<and>
        (0 < varNumIt \<longrightarrow>
           (\<exists>res. boot_plot load_npy aryRnd lstCon (NdArray (S, C, D) aryDpth) strPath
              varNumIt varConLw varConUp = Inr res))))"
proof (intro conjI impI)
  assume "varNumIt < 0"
  then show "boot_plot load_npy aryRnd lstCon (NdArray (S, C, D) aryDpth) strPath varNumIt
      varConLw varConUp = Inl ValueError"
    by (rule boot_plot_negative)
next
  assume h: "length aryDpth = S \<and> randint S (nat varNumIt) S aryRnd"
    and q: "varConLw < 0 \<or> 100 < varConLw \<or> varConUp < 0 \<or> 100 < varConUp"
  from h have len: "length aryDpth = S" and rnd: "randint S (nat varNumIt) S aryRnd"
    by simp_all
  show "boot_plot load_npy aryRnd lstCon (NdArray (S, C, D) aryDpth) strPath varNumIt
      varConLw varConUp = Inl ValueError"
  proof (cases "varNumIt < 0")
    case True
    then show ?thesis by (rule boot_plot_negative)
  next
    case False
    then have I: "0 \<le> varNumIt" by simp
    show ?thesis
      unfolding boot_plot_NdArray [OF len I rnd] Let_def
      using q by (simp add: percentile_ax0_def)
  qed
next
  assume h: "length aryDpth = S \<and> randint S (nat varNumIt) S aryRnd"
    and q: "0 \<le> varConLw \<and> varConLw \<le> 100 \<and> 0 \<le> varConUp \<and> varConUp \<le> 100"
    and I: "varNumIt = 0"
  from h have len: "length aryDpth = S" and rnd: "randint S (nat varNumIt) S aryRnd"
    by simp_all
  have I0: "0 \<le> varNumIt" using I by simp
  show "boot_plot load_npy aryRnd lstCon (NdArray (S, C, D) aryDpth) strPath varNumIt
      varConLw varConUp = Inl IndexError"
    unfolding boot_plot_NdArray [OF len I0 rnd] Let_def
    using q I by (simp add: percentile_ax0_def)
next
  assume h: "length aryDpth = S \<and> randint S (nat varNumIt) S aryRnd"
    and q: "0 \<le> varConLw \<and> varConLw \<le> 100 \<and> 0 \<le> varConUp \<and> varConUp \<le> 100"
    and I: "0 < varNumIt"
  from h have len: "length aryDpth = S" and rnd: "randint S (nat varNumIt) S aryRnd"
    by simp_all
  have I0: "0 \<le> varNumIt" using I by simp
  show "\<exists>res. boot_plot load_npy aryRnd lstCon (NdArray (S, C, D) aryDpth) strPath
              varNumIt varConLw varConUp = Inr res"
    unfolding boot_plot_NdArray [OF len I0 rnd] Let_def
    using q I by (simp add: percentile_ax0_def)
qed

theorem boot_plot_parameters_witness:
  "boot_plot (\<lambda>p l. Inl NameError) [[0, 0, 2], [1, 2, 0]] []
      (NdArray (3, 1, 2) [[[1, 10]], [[2, 30]], [[6, 20]]]) [] 2 25 101 = Inl ValueError \<and>
   boot_plot (\<lambda>p l. Inl NameError) [[0, 0, 2], [1, 2, 0]] []
      (NdArray (3, 1, 2) [[[1, 10]], [[2, 30]], [[6, 20]]]) [] (- 1) 25 100 = Inl ValueError \<and>
   (\<exists>res. boot_plot (\<lambda>p l. Inl NameError) [[0, 0, 2], [1, 2, 0]] []
      (NdArray (3, 1, 2) [[[1, 10]], [[2, 30]], [[6, 20]]]) [] 2 25 100 = Inr res) \<and>
   (\<exists>res. boot_plot (\<lambda>p l. Inl NameError) [[], []] []
      (NdArray (0, 2, 3) []) [] 2 25 100 = Inr res)"
proof -
  have rnd: "length [[[1, 10]], [[2, 30]], [[6, 20 :: real]]] = 3 \<and>
      randint 3 (nat 2) 3 [[0, 0, 2], [1, 2, 0]]"
    by (simp add: randint_def shape2_def)
  have rnd0: "length ([] :: ary3) = 0 \<and> randint 0 (nat 2) 0 [[], []]"
    by (simp add: randint_def shape2_def)
  note t = boot_plot_parameters [of _ "\<lambda>p l. Inl NameError" "[[0, 0, 2], [1, 2, 0]]" "[]"
      3 1 2 "[[[1, 10]], [[2, 30]], [[6, 20]]]" "[]"]
  from t [of 2 25 101] rnd
  have a: "boot_plot (\<lambda>p l. Inl NameError) [[0, 0, 2], [1, 2, 0]] []
      (NdArray (3, 1, 2) [[[1, 10]], [[2, 30]], [[6, 20]]]) [] 2 25 101 = Inl ValueError"
    by simp
  from t [of "- 1" 25 100]
  have b: "boot_plot (\<lambda>p l. Inl NameError) [[0, 0, 2], [1, 2, 0]] []
      (NdArray (3, 1, 2) [[[1, 10]], [[2, 30]], [[6, 20]]]) [] (- 1) 25 100 = Inl ValueError"
    by simp
  from t [of 2 25 100] rnd
  have c: "\<exists>res. boot_plot (\<lambda>p l. Inl NameError) [[0, 0, 2], [1, 2, 0]] []
      (NdArray (3, 1, 2) [[[1, 10]], [[2, 30]], [[6, 20]]]) [] 2 25 100 = Inr res"
    by simp
  from boot_plot_parameters [of 2 "\<lambda>p l. Inl NameError" "[[], []]" "[]" 0 2 3 "[]" "[]"
      25 100] rnd0
  have d: "\<exists>res. boot_plot (\<lambda>p l. Inl NameError) [[], []] []
      (NdArray (0, 2, 3) []) [] 2 25 100 = Inr res"
    by simp
  from a b c d show ?thesis by (intro conjI)
qed

text \<open>
  The claim C5 as it is written fails for an iteration count of zero: the run does not
  end with the error of an invalid parameter.
\<close>

theorem boot_plot_zero_iterations_counterexample:
  "boot_plot (\<lambda>p l. Inl NameError) [] []
      (NdArray (3, 1, 2) [[[1, 10]], [[2, 30]], [[6, 20]]]) [] 0 2.5 97.5 = Inl IndexError \<and>
   boot_plot (\<lambda>p l. Inl NameError) [] []
      (NdArray (3, 1, 2) [[[1, 10]], [[2, 30]], [[6, 20]]]) [] 0 2.5 97.5 \<noteq> Inl ValueError"
  by (simp add: boot_plot_def Let_def bootstrap_def percentile_ax0_def)


end
